theory Spec2Isabelle
  imports Complex_Main "HOL-Library.Multiset"
begin

section \<open>Strings\<close>

text \<open>
  A JavaScript string is modelled as a \<^typ>\<open>string\<close>, one \<^typ>\<open>char\<close> per UTF-16 code
  unit; the model covers the strings whose code units are below 256 (ASCII and the
  Latin-1 supplement, which holds every accented letter of the Spanish phrase tables).
\<close>

definition isDigit :: "char \<Rightarrow> bool" where
  \<comment> \<open>the regex class \<open>\d\<close>; \<open>\D\<close> is its complement\<close>
  "isDigit c = (c \<in> set ''0123456789'')"

definition startsWith :: "string \<Rightarrow> string \<Rightarrow> bool" where
  "startsWith s p = (take (length p) s = p)"

fun strIncludes :: "string \<Rightarrow> string \<Rightarrow> bool" where
  \<comment> \<open>\<open>s.includes(p)\<close>: \<open>p\<close> occurs in \<open>s\<close>\<close>
  "strIncludes [] p = (p = [])"
| "strIncludes (c # cs) p = (startsWith (c # cs) p \<or> strIncludes cs p)"

definition isSpace :: "char \<Rightarrow> bool" where
  \<comment> \<open>the regex class \<open>\s\<close> and the characters \<open>trim\<close> strips: tab, line feed, vertical tab,
      form feed, carriage return, space, no-break space\<close>
  "isSpace c = (c \<in> set [CHR 0x09, CHR 0x0A, CHR 0x0B, CHR 0x0C, CHR 0x0D, CHR 0x20, CHR 0xA0])"

definition trim :: "string \<Rightarrow> string" where
  "trim s = rev (dropWhile isSpace (rev (dropWhile isSpace s)))"

definition toLowerChar :: "char \<Rightarrow> char" where
  \<comment> \<open>\<open>A\<close>--\<open>Z\<close> and the Latin-1 capitals (0xC0--0xDE without the multiplication sign 0xD7)\<close>
  "toLowerChar c =
     (let n = (of_char c :: nat) in
      if (65 \<le> n \<and> n \<le> 90) \<or> (192 \<le> n \<and> n \<le> 222 \<and> n \<noteq> 215)
      then char_of (n + 32) else c)"

definition toLowerCase :: "string \<Rightarrow> string" where
  "toLowerCase s = map toLowerChar s"

definition truthy :: "string option \<Rightarrow> bool" where
  \<comment> \<open>a nullable string in a condition: null and the empty string are falsy\<close>
  "truthy s = (case s of None \<Rightarrow> False | Some v \<Rightarrow> v \<noteq> [])"

function showNat :: "nat \<Rightarrow> string" where
  "showNat n = (if n < 10 then [char_of (48 + n)]
                else showNat (n div 10) @ [char_of (48 + n mod 10)])"
  by pat_completeness auto
termination
  by (relation "measure id") auto

definition showInt :: "int \<Rightarrow> string" where
  "showInt i = (if i < 0 then CHR ''-'' # showNat (nat (- i)) else showNat (nat i))"

section \<open>Similarity engine (merger.ts)\<close>

definition normalizePhoneNumber :: "string \<Rightarrow> string" where
  "normalizePhoneNumber phone =
     (let normalized = filter isDigit phone;
          normalized = (if startsWith normalized ''1'' \<and> length normalized = 11
                        then drop 1 normalized else normalized);
          normalized = (if startsWith normalized ''52'' \<and> length normalized = 12
                        then drop 2 normalized else normalized)
      in normalized)"

text \<open>
  \<open>levenshteinDistance\<close> fills a \<open>(len1 + 1) \<times> (len2 + 1)\<close> matrix row by row; the model
  keeps one row at a time. \<open>fillRow c str2 prev left\<close> computes the cells \<open>matrix[i][j..]\<close> of
  the row of character \<open>c\<close>, where \<open>prev\<close> is the previous row from column \<open>j - 1\<close> on and
  \<open>left\<close> is \<open>matrix[i][j - 1]\<close>.
\<close>

fun fillRow :: "char \<Rightarrow> string \<Rightarrow> nat list \<Rightarrow> nat \<Rightarrow> nat list" where
  "fillRow c (y # ys) (prevIJ1 # prevIJ # prev) currIJ =
     (let cost = (if c = y then 0 else 1);
          v = min (min (prevIJ + 1) (currIJ + 1)) (prevIJ1 + cost)
      in v # fillRow c ys (prevIJ # prev) v)"
| "fillRow c _ _ currIJ = []"

definition levenshteinDistance :: "string \<Rightarrow> string \<Rightarrow> nat" where
  "levenshteinDistance str1 str2 =
     last (foldl (\<lambda>prev (i, c). i # fillRow c str2 prev i)
                 [0 ..< length str2 + 1]
                 (zip [1 ..< length str1 + 1] str1))"

definition calculateSimilarity :: "string \<Rightarrow> string \<Rightarrow> real" where
  "calculateSimilarity str1 str2 =
     (let distance = levenshteinDistance (toLowerCase str1) (toLowerCase str2);
          maxLength = max (length str1) (length str2)
      in if maxLength = 0 then 1 else 1 - real distance / real maxLength)"

section \<open>Data model (schema/tables.ts, schema/enums.ts)\<close>

text \<open>
  A text column that holds JSON is written by the application with \<open>JSON.stringify\<close> only
  (the routers stringify validated input, \<open>mergeContacts\<close> stringifies what it computed), so
  the model keeps the value such a column parses to: \<open>None\<close> is SQL \<open>NULL\<close>, \<open>Some j\<close> a text
  that \<open>JSON.parse\<close> turns into \<open>j\<close>. An \<open>integer\<close> column holds 32 bits: the model computes
  in \<^typ>\<open>int\<close>, as JavaScript does on numbers of this size, and a write of a value that
  does not fit the column fails, as the storage rejects it. Timestamps are milliseconds
  since the epoch, and every \<open>new Date()\<close> and \<open>Date.now()\<close> of one call reads the same clock
  value \<open>now\<close>.
\<close>

definition fitsInteger :: "int \<Rightarrow> bool" where
  \<comment> \<open>the range of a 32-bit \<open>integer\<close> column\<close>
  "fitsInteger v = (- 2147483648 \<le> v \<and> v \<le> 2147483647)"

datatype json =
    JNull
  | JBool bool
  | JNum int
  | JStr string
  | JArr "json list"
  | JObj "(string \<times> json) list"

datatype error = Error string | TypeError string

datatype ContactStatus = active | inactive | blocked | merged

record contact =
  contact_id :: string
  organizationId :: string
  firstName :: string
  lastName :: string
  email :: "string option"
  phone :: "string option"
  company :: "string option"
  heatScore :: int
  tags :: "json option"
  channelPreference :: "string option"
  timezone :: "string option"
  lastInteractionAt :: "int option"
  interactionCount :: int
  lifetimeValue :: "int option"
  averageResponseTime :: "int option"
  customFields :: "json option"
  status :: ContactStatus
  mergedWithId :: "string option"
  mergedContactIds :: "json option"
  updatedAt :: int

text \<open>
  The seven tables that reference a contact (conversation, contact agreement, contact note,
  contact source, agent assignment, form submission, voice call) all declare
  \<open>contactId\<close> as a non-null foreign key. A row of such a table is a \<open>contact_ref\<close>,
  extended by the further columns that the functions below read or write.
\<close>

record contact_ref =
  row_id :: string
  contactId :: string

record conversation = contact_ref +
  channel :: string

record agentAssignment = contact_ref +
  conversationId :: string
  agentId :: string
  unassignedAt :: "int option"
  messagesHandled :: int
  creditsUsed :: int

datatype AgentType = sales | support | scheduler | qualifier | custom

datatype VoiceProvider = elevenlabs | vapi | retell | none

record agent =
  agent_id :: string
  agent_organizationId :: string
  agentType :: AgentType
  voiceProvider :: VoiceProvider
  systemPrompt :: string
  temperature :: "int option"
  maxTokens :: "int option"
  model :: string
  allowedActions :: "json option"
  assignToChannels :: "json option"
  assignToCampaigns :: "json option"
  agent_active :: bool

datatype MessageRole = user | assistant | system | human_agent

record message =
  message_id :: string
  message_conversationId :: string
  direction :: string
  role :: MessageRole
  content :: string
  contentType :: string
  message_channel :: string
  generatedByAi :: bool
  message_model :: "string option"
  message_creditsUsed :: "int option"
  actionTriggered :: "json option"
  createdAt :: int

record db =
  contacts :: "contact list"
  conversations :: "conversation list"
  contactAgreements :: "contact_ref list"
  contactNotes :: "contact_ref list"
  contactSources :: "contact_ref list"
  agentAssignments :: "agentAssignment list"
  formSubmissions :: "contact_ref list"
  voiceCalls :: "contact_ref list"
  agents :: "agent list"
  conversationMessages :: "message list"

definition findContact :: "db \<Rightarrow> string \<Rightarrow> contact option" where
  \<comment> \<open>\<open>query.contactTable.findFirst({ where: eq(contactTable.id, id) })\<close>\<close>
  "findContact d i = find (\<lambda>c. contact_id c = i) (contacts d)"

section \<open>Heat scorer (scoring.ts)\<close>

definition recencyScore :: "int \<Rightarrow> int option \<Rightarrow> int" where
  "recencyScore now lastAt =
     (case lastAt of
        None \<Rightarrow> 0
      | Some t \<Rightarrow>
          (let daysSinceLastInteraction = (now - t) div (1000 * 60 * 60 * 24) in
           if daysSinceLastInteraction = 0 then 30
           else if daysSinceLastInteraction \<le> 1 then 28
           else if daysSinceLastInteraction \<le> 3 then 25
           else if daysSinceLastInteraction \<le> 7 then 20
           else if daysSinceLastInteraction \<le> 14 then 15
           else if daysSinceLastInteraction \<le> 30 then 10
           else if daysSinceLastInteraction \<le> 60 then 5
           else 0))"

definition frequencyScore :: "int \<Rightarrow> int" where
  "frequencyScore recentInteractionCount =
     (if recentInteractionCount \<ge> 16 then 30
      else if recentInteractionCount \<ge> 6 then 20
      else if recentInteractionCount \<ge> 1 then 10
      else 0)"

definition orZero :: "int option \<Rightarrow> int" where
  \<comment> \<open>\<open>x || 0\<close> on a nullable integer\<close>
  "orZero x = (case x of None \<Rightarrow> 0 | Some v \<Rightarrow> v)"

definition valueScore :: "int \<Rightarrow> int" where
  "valueScore ltv =
     (if ltv \<ge> 100000 then 20
      else if ltv \<ge> 50000 then 15
      else if ltv \<ge> 10000 then 10
      else if ltv \<ge> 1000 then 5
      else 0)"

definition engagementScore :: "int option \<Rightarrow> int" where
  \<comment> \<open>\<open>contact.averageResponseTime || null\<close>: an average of 0 seconds counts as no data\<close>
  "engagementScore avg =
     (let avgResponseTime = (case avg of None \<Rightarrow> None | Some v \<Rightarrow> if v = 0 then None else Some v) in
      case avgResponseTime of
        None \<Rightarrow> 0
      | Some v \<Rightarrow>
          (if v < 300 then 20
           else if v < 1800 then 15
           else if v < 7200 then 10
           else if v < 86400 then 5
           else 0))"

definition calculateHeatScore :: "int \<Rightarrow> db \<Rightarrow> string \<Rightarrow> error + int" where
  "calculateHeatScore now d contactId' =
     (case findContact d contactId' of
        None \<Rightarrow> Inl (Error ''Contact not found'')
      | Some c \<Rightarrow>
          (let score = 0;
               score = score + recencyScore now (lastInteractionAt c);
               score = score + frequencyScore (interactionCount c);
               score = score + valueScore (orZero (lifetimeValue c));
               score = score + engagementScore (averageResponseTime c)
           in Inr (min (max score 0) 100)))"

definition recalculateHeatScore :: "int \<Rightarrow> db \<Rightarrow> string \<Rightarrow> db \<times> (error + int)" where
  "recalculateHeatScore now d contactId' =
     (case calculateHeatScore now d contactId' of
        Inl e \<Rightarrow> (d, Inl e)
      | Inr hs \<Rightarrow>
          (d\<lparr>contacts := map (\<lambda>c. if contact_id c = contactId'
                                    then c\<lparr>heatScore := hs, updatedAt := now\<rparr> else c)
                              (contacts d)\<rparr>,
           Inr hs))"

section \<open>Identity resolver (merger.ts)\<close>

record contactQuery =
  q_email :: "string option"
  q_phone :: "string option"
  q_firstName :: "string option"
  q_lastName :: "string option"

record DuplicateCandidate =
  cand_id :: string
  confidence :: real
  matchReason :: string
  cand_contact :: contact

definition activeInOrg :: "db \<Rightarrow> string \<Rightarrow> contact list" where
  \<comment> \<open>\<open>findMany\<close> on the organization's active contacts\<close>
  "activeInOrg d org = filter (\<lambda>c. organizationId c = org \<and> status c = active) (contacts d)"

definition emailPass :: "db \<Rightarrow> string \<Rightarrow> contactQuery \<Rightarrow> DuplicateCandidate list" where
  "emailPass d org q =
     (if truthy (q_email q)
      then map (\<lambda>m. \<lparr>cand_id = contact_id m, confidence = 1.0,
                      matchReason = ''Exact email match'', cand_contact = m\<rparr>)
               (filter (\<lambda>c. organizationId c = org \<and> email c = q_email q \<and> status c = active)
                       (contacts d))
      else [])"

definition phoneStep ::
  "string \<Rightarrow> DuplicateCandidate list \<Rightarrow> contact \<Rightarrow> DuplicateCandidate list" where
  "phoneStep normalizedPhone candidates m =
     (if truthy (phone m) \<and> normalizePhoneNumber (the (phone m)) = normalizedPhone \<and>
         \<not> list_ex (\<lambda>c. cand_id c = contact_id m) candidates
      then candidates @ [\<lparr>cand_id = contact_id m, confidence = 0.95,
                           matchReason = ''Exact phone match (normalized)'', cand_contact = m\<rparr>]
      else candidates)"

definition phonePass ::
  "db \<Rightarrow> string \<Rightarrow> contactQuery \<Rightarrow> DuplicateCandidate list \<Rightarrow> DuplicateCandidate list" where
  "phonePass d org q candidates =
     (if truthy (q_phone q)
      then foldl (phoneStep (normalizePhoneNumber (the (q_phone q)))) candidates (activeInOrg d org)
      else candidates)"

definition orEmpty :: "string option \<Rightarrow> string" where
  \<comment> \<open>\<open>x || ""\<close>\<close>
  "orEmpty x = (case x of None \<Rightarrow> [] | Some v \<Rightarrow> v)"

definition localPart :: "string \<Rightarrow> string" where
  \<comment> \<open>\<open>email.split("@")[0]\<close>\<close>
  "localPart e = takeWhile (\<lambda>c. c \<noteq> CHR ''@'') e"

definition lastFour :: "string \<Rightarrow> string" where
  \<comment> \<open>\<open>digits.slice(-4)\<close>\<close>
  "lastFour s = drop (length s - 4) s"

definition jsRound :: "real \<Rightarrow> int" where
  \<comment> \<open>\<open>Math.round\<close>: the nearest integer, halves upwards\<close>
  "jsRound x = \<lfloor>x + 1 / 2\<rfloor>"

definition fuzzyConfidence :: "contactQuery \<Rightarrow> contact \<Rightarrow> real \<Rightarrow> real" where
  "fuzzyConfidence q m avgSimilarity =
     (let confidence = avgSimilarity * 0.7;
          confidence =
            (if truthy (q_email q) \<and> truthy (email m) \<and>
                localPart (the (q_email q)) = localPart (the (email m))
             then min (confidence + 0.15) 0.95 else confidence);
          confidence =
            (if truthy (q_phone q) \<and> truthy (phone m)
             then (let phoneDigits = normalizePhoneNumber (the (q_phone q));
                       matchPhoneDigits = normalizePhoneNumber (the (phone m))
                   in if lastFour phoneDigits = lastFour matchPhoneDigits \<and> length phoneDigits \<ge> 4
                      then min (confidence + 0.1) 0.95 else confidence)
             else confidence)
      in confidence)"

definition fuzzyStep ::
  "contactQuery \<Rightarrow> real \<Rightarrow> DuplicateCandidate list \<Rightarrow> contact \<Rightarrow> DuplicateCandidate list" where
  "fuzzyStep q threshold candidates m =
     (if list_ex (\<lambda>c. cand_id c = contact_id m) candidates then candidates
      else
        (let firstNameSimilarity = calculateSimilarity (orEmpty (q_firstName q)) (firstName m);
             lastNameSimilarity = calculateSimilarity (orEmpty (q_lastName q)) (lastName m);
             avgSimilarity = (firstNameSimilarity + lastNameSimilarity) / 2
         in if avgSimilarity \<ge> threshold
            then candidates @
                 [\<lparr>cand_id = contact_id m, confidence = fuzzyConfidence q m avgSimilarity,
                   matchReason = ''Fuzzy name match ('' @ showInt (jsRound (avgSimilarity * 100)) @
                                 ''% similar)'',
                   cand_contact = m\<rparr>]
            else candidates))"

definition fuzzyPass ::
  "db \<Rightarrow> string \<Rightarrow> contactQuery \<Rightarrow> real \<Rightarrow> DuplicateCandidate list \<Rightarrow> DuplicateCandidate list"
  where
  "fuzzyPass d org q threshold candidates =
     (if truthy (q_firstName q) \<and> truthy (q_lastName q)
      then foldl (fuzzyStep q threshold) candidates (activeInOrg d org)
      else candidates)"

definition detectDuplicateContacts ::
  "db \<Rightarrow> string \<Rightarrow> contactQuery \<Rightarrow> real \<Rightarrow> DuplicateCandidate list" where
  \<comment> \<open>\<open>Array.prototype.sort\<close> is stable; the comparator orders by descending confidence\<close>
  "detectDuplicateContacts d org q threshold =
     sort_key (\<lambda>c. - confidence c)
       (fuzzyPass d org q threshold (phonePass d org q (emailPass d org q)))"

definition setAdd :: "string list \<Rightarrow> string \<Rightarrow> string list" where
  \<comment> \<open>\<open>Set.add\<close>, the set kept in insertion order\<close>
  "setAdd acc t = (if t \<in> set acc then acc else acc @ [t])"

fun stringsOf :: "json list \<Rightarrow> string list" where
  \<comment> \<open>the elements with \<open>typeof tag === "string"\<close>\<close>
  "stringsOf [] = []"
| "stringsOf (JStr t # js) = t # stringsOf js"
| "stringsOf (_ # js) = stringsOf js"

definition tagsOf :: "json option \<Rightarrow> string list" where
  "tagsOf tags' =
     (case tags' of
        Some (JArr parsed) \<Rightarrow> map (\<lambda>tag. toLowerCase (trim tag)) (stringsOf parsed)
      | _ \<Rightarrow> [])"

definition mergeTags :: "json option list \<Rightarrow> string list" where
  "mergeTags tagArrays = foldl setAdd [] (concat (map tagsOf tagArrays))"

fun setProp :: "(string \<times> json) list \<Rightarrow> string \<times> json \<Rightarrow> (string \<times> json) list" where
  \<comment> \<open>assigning one property: an existing key keeps its place (the order in which
      \<open>JSON.stringify\<close> lists integer-like keys is not kept)\<close>
  "setProp [] kv = [kv]"
| "setProp (p # ps) kv = (if fst p = fst kv then kv # ps else p # setProp ps kv)"

definition ownProps :: "json option \<Rightarrow> (string \<times> json) list" where
  \<comment> \<open>the properties \<open>Object.assign\<close> copies when \<open>typeof parsed === "object" && parsed !== null\<close>:
      an object's entries, an array's elements under their indices\<close>
  "ownProps fields' =
     (case fields' of
        Some (JObj kvs) \<Rightarrow> kvs
      | Some (JArr xs) \<Rightarrow> zip (map showNat [0 ..< length xs]) xs
      | _ \<Rightarrow> [])"

definition mergeCustomFields :: "json option list \<Rightarrow> (string \<times> json) list" where
  "mergeCustomFields fieldObjects = foldl setProp [] (concat (map ownProps fieldObjects))"

definition firstTruthy :: "string option \<Rightarrow> string option list \<Rightarrow> string option" where
  \<comment> \<open>\<open>primary.f || duplicates.find((d) => d.f)?.f || null\<close>\<close>
  "firstTruthy p ds =
     (if truthy p then p else case find truthy ds of Some v \<Rightarrow> v | None \<Rightarrow> None)"

definition spreadIds :: "json option \<Rightarrow> error + json list" where
  \<comment> \<open>\<open>...(primary.mergedContactIds ? JSON.parse(primary.mergedContactIds) : [])\<close>: an array
      spreads to its elements, a string to its characters, anything else is not iterable\<close>
  "spreadIds col =
     (case col of
        None \<Rightarrow> Inr []
      | Some (JArr xs) \<Rightarrow> Inr xs
      | Some (JStr s) \<Rightarrow> Inr (map (\<lambda>c. JStr [c]) s)
      | Some _ \<Rightarrow> Inl (TypeError ''not iterable''))"

definition repoint ::
  "string \<Rightarrow> string list \<Rightarrow> 'a contact_ref_scheme list \<Rightarrow> 'a contact_ref_scheme list" where
  \<comment> \<open>\<open>update(t).set({ contactId: primaryId }).where(inArray(t.contactId, duplicateIds))\<close>\<close>
  "repoint primaryId duplicateIds rows =
     map (\<lambda>r. if contactId r \<in> set duplicateIds then r\<lparr>contactId := primaryId\<rparr> else r) rows"

definition mergedLifetimeValue :: "contact \<Rightarrow> contact list \<Rightarrow> int" where
  "mergedLifetimeValue primary duplicates =
     orZero (lifetimeValue primary) +
     foldl (\<lambda>sum dup. sum + orZero (lifetimeValue dup)) 0 duplicates"

definition mergedInteractionCount :: "contact \<Rightarrow> contact list \<Rightarrow> int" where
  "mergedInteractionCount primary duplicates =
     interactionCount primary + foldl (\<lambda>sum dup. sum + interactionCount dup) 0 duplicates"

definition mergedFields ::
  "int \<Rightarrow> contact \<Rightarrow> contact list \<Rightarrow> string list \<Rightarrow> json list \<Rightarrow> contact \<Rightarrow> contact" where
  \<comment> \<open>\<open>.set({ ...merged, updatedAt: new Date() })\<close> on one row; \<open>history\<close> is the spread
      \<open>mergedContactIds\<close> of the primary\<close>
  "mergedFields now primary duplicates duplicateIds history c =
     c\<lparr>phone := firstTruthy (phone primary) (map phone duplicates),
       email := firstTruthy (email primary) (map email duplicates),
       company := firstTruthy (company primary) (map company duplicates),
       timezone := firstTruthy (timezone primary) (map timezone duplicates),
       channelPreference :=
         firstTruthy (channelPreference primary) (map channelPreference duplicates),
       tags := Some (JArr (map JStr (mergeTags (tags primary # map tags duplicates)))),
       customFields := Some (JObj (mergeCustomFields
                                     (customFields primary # map customFields duplicates))),
       lifetimeValue := Some (mergedLifetimeValue primary duplicates),
       interactionCount := mergedInteractionCount primary duplicates,
       mergedContactIds := Some (JArr (history @ map JStr duplicateIds)),
       updatedAt := now\<rparr>"

definition migrateReferences :: "string \<Rightarrow> string list \<Rightarrow> db \<Rightarrow> db" where
  "migrateReferences primaryId duplicateIds d =
     d\<lparr>conversations := repoint primaryId duplicateIds (conversations d),
       contactAgreements := repoint primaryId duplicateIds (contactAgreements d),
       contactNotes := repoint primaryId duplicateIds (contactNotes d),
       contactSources := repoint primaryId duplicateIds (contactSources d),
       agentAssignments := repoint primaryId duplicateIds (agentAssignments d),
       formSubmissions := repoint primaryId duplicateIds (formSubmissions d),
       voiceCalls := repoint primaryId duplicateIds (voiceCalls d)\<rparr>"

definition markMerged :: "int \<Rightarrow> string \<Rightarrow> contact \<Rightarrow> contact" where
  "markMerged now primaryId c =
     c\<lparr>status := merged, mergedWithId := Some primaryId, updatedAt := now\<rparr>"

definition mergeContactsTx ::
  "int \<Rightarrow> db \<Rightarrow> string \<Rightarrow> string list \<Rightarrow> error + (db \<times> contact)" where
  \<comment> \<open>the body of the transaction: \<open>Inl\<close> is a throw, which rolls the transaction back;
      \<open>inArray\<close> over an empty list selects no row; the update of the primary fails when a
      sum does not fit its \<open>integer\<close> column\<close>
  "mergeContactsTx now d primaryId duplicateIds =
     (case findContact d primaryId of
        None \<Rightarrow> Inl (Error ''Primary contact not found'')
      | Some primary \<Rightarrow>
          (let duplicates = filter (\<lambda>c. contact_id c \<in> set duplicateIds) (contacts d) in
           if length duplicates = 0 then Inl (Error ''No duplicate contacts found'')
           else
             (case spreadIds (mergedContactIds primary) of
                Inl e \<Rightarrow> Inl e
              | Inr history \<Rightarrow>
                  if \<not> (fitsInteger (mergedLifetimeValue primary duplicates) \<and>
                          fitsInteger (mergedInteractionCount primary duplicates))
                  then Inl (Error ''integer out of range'')
                  else
                  (let d1 = d\<lparr>contacts :=
                              map (\<lambda>c. if contact_id c = primaryId
                                       then mergedFields now primary duplicates duplicateIds history c
                                       else c)
                                  (contacts d)\<rparr>;
                       d2 = migrateReferences primaryId duplicateIds d1;
                       d3 = d2\<lparr>contacts :=
                               map (\<lambda>c. if contact_id c \<in> set duplicateIds
                                        then markMerged now primaryId c else c)
                                   (contacts d2)\<rparr>
                   in case findContact d3 primaryId of
                        None \<Rightarrow> Inl (Error ''Failed to retrieve updated primary contact'')
                      | Some updatedPrimary \<Rightarrow> Inr (d3, updatedPrimary)))))"

definition mergeContacts ::
  "int \<Rightarrow> db \<Rightarrow> string \<Rightarrow> string list \<Rightarrow> db \<times> (error + contact)" where
  \<comment> \<open>a failed transaction leaves the database as it was; the heat score is recalculated
      after the commit, and the call returns the contact read inside the transaction\<close>
  "mergeContacts now d primaryId duplicateIds =
     (case mergeContactsTx now d primaryId duplicateIds of
        Inl e \<Rightarrow> (d, Inl e)
      | Inr (d', result) \<Rightarrow>
          (case recalculateHeatScore now d' primaryId of
             (d'', Inl e) \<Rightarrow> (d'', Inl e)
           | (d'', Inr _) \<Rightarrow> (d'', Inr result)))"

definition queryOf :: "contact \<Rightarrow> contactQuery" where
  \<comment> \<open>a contact row passed where the profile \<open>{ email, phone, firstName, lastName }\<close> is expected\<close>
  "queryOf c = \<lparr>q_email = email c, q_phone = phone c,
                q_firstName = Some (firstName c), q_lastName = Some (lastName c)\<rparr>"

definition autoMergeStep :: "int \<Rightarrow> string \<Rightarrow> db \<times> nat \<Rightarrow> contact \<Rightarrow> db \<times> nat" where
  "autoMergeStep now org st c =
     (let d = fst st; mergeCount = snd st;
          duplicates = detectDuplicateContacts d org (queryOf c) 0.9;
          highConfidenceDupes = filter (\<lambda>dup. confidence dup \<ge> 0.95) duplicates
      in if length highConfidenceDupes > 0
         then (case mergeContacts now d (contact_id c) (map cand_id highConfidenceDupes) of
                 (d', Inl e) \<Rightarrow> (d', mergeCount)
               | (d', Inr _) \<Rightarrow> (d', mergeCount + length highConfidenceDupes))
         else (d, mergeCount))"

definition autoMergeHighConfidenceDuplicates :: "int \<Rightarrow> db \<Rightarrow> string \<Rightarrow> db \<times> nat" where
  \<comment> \<open>the loop runs over the contacts read before the first merge\<close>
  "autoMergeHighConfidenceDuplicates now d org =
     foldl (autoMergeStep now org) (d, 0) (activeInOrg d org)"

section \<open>Agent router (agents/manager.ts)\<close>

record AgentSelectionCriteria =
  crit_channel :: string
  crit_contactId :: "string option"
  intent :: "string option"
  campaign :: "string option"

definition parsedOrEmpty :: "json option \<Rightarrow> json" where
  \<comment> \<open>\<open>col ? JSON.parse(col) : []\<close>\<close>
  "parsedOrEmpty col = (case col of None \<Rightarrow> JArr [] | Some j \<Rightarrow> j)"

definition isArray :: "json \<Rightarrow> bool" where
  "isArray j = (case j of JArr xs \<Rightarrow> True | _ \<Rightarrow> False)"

definition arrayIncludes :: "json \<Rightarrow> string \<Rightarrow> bool" where
  \<comment> \<open>\<open>xs.includes(s)\<close> on a parsed array\<close>
  "arrayIncludes j s = (case j of JArr xs \<Rightarrow> JStr s \<in> set xs | _ \<Rightarrow> False)"

definition agentScore :: "AgentSelectionCriteria \<Rightarrow> agent \<Rightarrow> int" where
  "agentScore criteria a =
     (let score = 0;
          assignToChannels' = parsedOrEmpty (assignToChannels a);
          assignToCampaigns' = parsedOrEmpty (assignToCampaigns a);
          score = (if isArray assignToChannels' \<and>
                      arrayIncludes assignToChannels' (crit_channel criteria)
                   then score + 30 else score);
          score = (if truthy (campaign criteria) \<and> isArray assignToCampaigns'
                   then (if arrayIncludes assignToCampaigns' (the (campaign criteria))
                         then score + 25 else score)
                   else score);
          score = (if agentType a = qualifier \<and> \<not> truthy (crit_contactId criteria) then score + 20
                   else if agentType a = sales \<and> intent criteria = Some ''purchase'' then score + 20
                   else if agentType a = support \<and> intent criteria = Some ''help'' then score + 20
                   else if agentType a = scheduler \<and> intent criteria = Some ''schedule''
                   then score + 20
                   else score);
          score = (if crit_channel criteria = ''calls'' \<and> voiceProvider a \<noteq> none
                   then score + 15 else score);
          score = score + 10
      in score)"

definition activeAgents :: "db \<Rightarrow> string \<Rightarrow> agent list" where
  "activeAgents d org = filter (\<lambda>a. agent_organizationId a = org \<and> agent_active a) (agents d)"

definition selectBestAgent :: "db \<Rightarrow> string \<Rightarrow> AgentSelectionCriteria \<Rightarrow> agent option" where
  \<comment> \<open>the sort is stable and orders by descending score; \<open>scoredAgents[0]?.agent || null\<close>\<close>
  "selectBestAgent d org criteria =
     (let agents' = activeAgents d org in
      if length agents' = 0 then None
      else (let scoredAgents = map (\<lambda>a. (a, agentScore criteria a)) agents';
                scoredAgents = sort_key (\<lambda>s. - snd s) scoredAgents
            in case scoredAgents of [] \<Rightarrow> None | s # _ \<Rightarrow> Some (fst s)))"

section \<open>Conversation history (the core engine)\<close>

definition messagesOf :: "db \<Rightarrow> string \<Rightarrow> message list" where
  "messagesOf d cid = filter (\<lambda>m. message_conversationId m = cid) (conversationMessages d)"

definition getConversationHistory :: "db \<Rightarrow> string \<Rightarrow> nat \<Rightarrow> (MessageRole \<times> string) list" where
  \<comment> \<open>\<open>orderBy: desc(createdAt), limit\<close>, then \<open>reverse\<close>, \<open>map\<close> and \<open>filter\<close>; rows with the
      same \<open>createdAt\<close> come in the order of the table, which the storage leaves open\<close>
  "getConversationHistory d cid limit =
     (let messages = take limit (sort_key (\<lambda>m. - createdAt m) (messagesOf d cid))
      in filter (\<lambda>msg. fst msg \<noteq> system)
           (map (\<lambda>msg. (role msg, content msg)) (rev messages)))"

text \<open>
  The history as the specification words it: the \<open>limit\<close> most recent non-system messages
  of the conversation (all of them when there are fewer), in chronological order.
\<close>

definition specHistory :: "db \<Rightarrow> string \<Rightarrow> nat \<Rightarrow> (MessageRole \<times> string) list" where
  "specHistory d cid limit =
     (let nonSystem = sort_key createdAt (filter (\<lambda>m. role m \<noteq> system) (messagesOf d cid))
      in map (\<lambda>msg. (role msg, content msg)) (drop (length nonSystem - limit) nonSystem))"

text \<open>The \<open>limit\<close> most recent messages of the conversation, of any role, in chronological order.\<close>

definition recentMessages :: "db \<Rightarrow> string \<Rightarrow> nat \<Rightarrow> message list" where
  "recentMessages d cid limit =
     (let chronological = sort_key createdAt (messagesOf d cid)
      in drop (length chronological - limit) chronological)"

section \<open>Decision maker (core/decision-maker.ts)\<close>

record Action =
  action_type :: string
  params :: "(string \<times> json) list"
  priority :: int

text \<open>
  Of the context that \<open>buildContext\<close> assembles, the decision maker reads the contact's id,
  its parsed tags and its lifetime value; the rest of the context is the extension part of
  the record.
\<close>

record ContactContext =
  ctx_contact_id :: string
  ctx_tags :: "string list"
  ctx_lifetimeValue :: int

text \<open>
  Three helpers only compute values stored in the \<open>params\<close> of an action (and, for the
  product query, whether the \<open>search-product\<close> action is emitted). They are parameters of
  the model, so that every statement below holds whatever they return.
\<close>

record extractors =
  extractTimeProposals :: "string \<Rightarrow> string list"
  extractEscalationReason :: "string \<Rightarrow> string"
  extractProductQuery :: "string \<Rightarrow> string option"

definition intentPatterns :: "(string \<times> string list) list" where
  "intentPatterns =
     [(''link'', [''enviar enlace'', ''aqu'' @ [CHR 0xED] @ '' est'' @ [CHR 0xE1] @ '' el link'',
                 ''puedes ver en'', ''send link'', ''here'' @ [CHR 0x27] @ ''s the link'']),
      (''document'', [''enviar documento'', ''adjunto'', ''archivo'', ''send document'',
                     ''attachment'', ''file'']),
      (''quote'', [''cotizaci'' @ [CHR 0xF3] @ ''n'', ''presupuesto'', ''precio'', ''costo'',
                  ''quote'', ''estimate'', ''price'']),
      (''meeting'', [''reuni'' @ [CHR 0xF3] @ ''n'', ''cita'', ''llamada'', ''agendar'', ''meeting'',
                    ''appointment'', ''schedule'']),
      (''escalate'', [''transferir'', ''hablar con'', ''agente humano'', ''transfer'',
                     ''speak with'', ''human agent'']),
      (''product'', [''producto'', ''inventario'', ''stock'', ''disponible'', ''product'',
                    ''inventory'', ''available'']),
      (''important'', [''importante'', ''nota'', ''recordar'', ''important'', ''note'',
                      ''remember''])]"

definition detectIntent :: "string \<Rightarrow> string list" where
  "detectIntent response =
     (let lowerResponse = toLowerCase response
      in map fst (filter (\<lambda>entry. list_ex (\<lambda>pattern. strIncludes lowerResponse pattern) (snd entry))
                         intentPatterns))"

definition matchUrl :: "string \<Rightarrow> string option" where
  \<comment> \<open>a match of \<open>https?:\/\/[^\s]+\<close> that starts at the head of the text\<close>
  "matchUrl s =
     (if startsWith s ''http''
      then (let r = drop 4 s;
                scheme = (if startsWith r ''s'' then ''https'' else ''http'');
                r = (if startsWith r ''s'' then drop 1 r else r)
            in if startsWith r ''://''
               then (let run = takeWhile (\<lambda>c. \<not> isSpace c) (drop 3 r)
                     in if run \<noteq> [] then Some (scheme @ ''://'' @ run) else None)
               else None)
      else None)"

fun urlsFrom :: "nat \<Rightarrow> string \<Rightarrow> string list" where
  \<comment> \<open>the global scan: \<open>k\<close> characters of the last match are still to be passed over\<close>
  "urlsFrom k [] = []"
| "urlsFrom k (c # cs) =
     (if k > 0 then urlsFrom (k - 1) cs
      else (case matchUrl (c # cs) of
              Some url \<Rightarrow> url # urlsFrom (length url - 1) cs
            | None \<Rightarrow> urlsFrom 0 cs))"

definition extractUrls :: "string \<Rightarrow> string list" where
  \<comment> \<open>\<open>text.match(/(https?:\/\/[^\s]+)/g) || []\<close>\<close>
  "extractUrls text = urlsFrom 0 text"

definition indexOf :: "string \<Rightarrow> string \<Rightarrow> nat option" where
  "indexOf text s = find (\<lambda>i. startsWith (drop i text) s) [0 ..< length text + 1]"

definition extractLinkTitle :: "string \<Rightarrow> string \<Rightarrow> string" where
  \<comment> \<open>the regex \<open>([^.!?]+)$\<close> matches the longest end of \<open>beforeUrl\<close> without a full stop,
      exclamation mark or question mark\<close>
  "extractLinkTitle text url =
     (case indexOf text url of
        None \<Rightarrow> ''Link''
      | Some urlIndex \<Rightarrow>
          if urlIndex > 0
          then (let beforeUrl = drop (urlIndex - 50) (take urlIndex text);
                    match = rev (takeWhile (\<lambda>c. c \<notin> set ''.!?'') (rev beforeUrl))
                in if match \<noteq> [] then trim match else ''Link'')
          else ''Link'')"

definition detectDocumentType :: "string \<Rightarrow> string" where
  "detectDocumentType response =
     (if strIncludes (toLowerCase response) ''pdf'' then ''pdf''
      else if strIncludes (toLowerCase response) ''contrato'' then ''contract''
      else if strIncludes (toLowerCase response) ''factura'' then ''invoice''
      else if strIncludes (toLowerCase response) ''recibo'' then ''receipt''
      else ''document'')"

definition escalationPhrases :: "string list" where
  "escalationPhrases =
     [''transferir'', ''conectar con'', ''hablar con un agente'',
      ''necesita asistencia especializada'', ''transfer'', ''connect with'',
      ''speak to an agent'', ''needs specialized assistance'']"

definition shouldEscalate :: "string \<Rightarrow> 'a ContactContext_scheme \<Rightarrow> bool" where
  "shouldEscalate response context =
     (let lowerResponse = toLowerCase response
      in if list_ex (\<lambda>phrase. strIncludes lowerResponse phrase) escalationPhrases then True
         else if ''vip'' \<in> set (ctx_tags context) \<and> ctx_lifetimeValue context > 100000 then True
         else False)"

definition extractTags :: "string \<Rightarrow> 'a ContactContext_scheme \<Rightarrow> string list" where
  "extractTags response context =
     (let newTags = [];
          newTags = (if strIncludes (toLowerCase response) ''interesado'' \<or>
                        strIncludes (toLowerCase response) ''interested''
                     then newTags @ [''interested''] else newTags);
          newTags = (if strIncludes (toLowerCase response) (''cotizaci'' @ [CHR 0xF3] @ ''n'') \<or>
                        strIncludes (toLowerCase response) ''quote''
                     then newTags @ [''quote-requested''] else newTags)
      in filter (\<lambda>tag. tag \<notin> set (ctx_tags context)) newTags)"

definition canInclude :: "json \<Rightarrow> bool" where
  \<comment> \<open>the values that have an \<open>includes\<close> method: arrays and strings\<close>
  "canInclude j = (case j of JArr xs \<Rightarrow> True | JStr s \<Rightarrow> True | _ \<Rightarrow> False)"

definition jsIncludes :: "json \<Rightarrow> string \<Rightarrow> bool" where
  \<comment> \<open>\<open>allowedActions.includes(s)\<close>: membership in an array, occurrence in a string\<close>
  "jsIncludes j s = (case j of JArr xs \<Rightarrow> JStr s \<in> set xs | JStr t \<Rightarrow> strIncludes t s | _ \<Rightarrow> False)"

text \<open>
  \<open>decideActions\<close> pushes onto one array in eight numbered checks; each check is a
  definition that gives the actions it pushes, in the order of the source.
\<close>

definition linkActions :: "(string \<Rightarrow> bool) \<Rightarrow> string list \<Rightarrow> string \<Rightarrow> string \<Rightarrow> Action list" where
  "linkActions allowed intent' aiResponse conversationId' =
     (if allowed ''send-link'' \<and> (''link'' \<in> set intent' \<or> strIncludes aiResponse ''http'')
      then map (\<lambda>url. \<lparr>action_type = ''send-link'',
                        params = [(''conversationId'', JStr conversationId'),
                                  (''url'', JStr url),
                                  (''title'', JStr (extractLinkTitle aiResponse url))],
                        priority = 5\<rparr>)
               (extractUrls aiResponse)
      else [])"

definition documentActions :: "(string \<Rightarrow> bool) \<Rightarrow> string list \<Rightarrow> string \<Rightarrow> string \<Rightarrow> Action list" where
  "documentActions allowed intent' aiResponse conversationId' =
     (if allowed ''send-document'' \<and> (''document'' \<in> set intent' \<or> ''file'' \<in> set intent')
      then [\<lparr>action_type = ''send-document'',
             params = [(''conversationId'', JStr conversationId'),
                       (''documentType'', JStr (detectDocumentType aiResponse))],
             priority = 7\<rparr>]
      else [])"

definition quoteActions ::
  "(string \<Rightarrow> bool) \<Rightarrow> string list \<Rightarrow> 'a ContactContext_scheme \<Rightarrow> string \<Rightarrow> Action list" where
  \<comment> \<open>\<open>extractQuoteItems\<close> is a placeholder that returns the empty array\<close>
  "quoteActions allowed intent' context conversationId' =
     (if allowed ''create-quote'' \<and>
         (''quote'' \<in> set intent' \<or> ''price'' \<in> set intent' \<or> ''cost'' \<in> set intent')
      then [\<lparr>action_type = ''create-quote'',
             params = [(''conversationId'', JStr conversationId'),
                       (''contactId'', JStr (ctx_contact_id context)),
                       (''items'', JArr [])],
             priority = 9\<rparr>]
      else [])"

definition meetingActions ::
  "extractors \<Rightarrow> (string \<Rightarrow> bool) \<Rightarrow> string list \<Rightarrow> string \<Rightarrow> 'a ContactContext_scheme \<Rightarrow> string
   \<Rightarrow> Action list" where
  "meetingActions ex allowed intent' aiResponse context conversationId' =
     (if allowed ''schedule-meeting'' \<and>
         (''meeting'' \<in> set intent' \<or> ''appointment'' \<in> set intent' \<or> ''call'' \<in> set intent')
      then [\<lparr>action_type = ''schedule-meeting'',
             params = [(''conversationId'', JStr conversationId'),
                       (''contactId'', JStr (ctx_contact_id context)),
                       (''proposedTimes'', JArr (map JStr (extractTimeProposals ex aiResponse)))],
             priority = 8\<rparr>]
      else [])"

definition escalationActions ::
  "extractors \<Rightarrow> (string \<Rightarrow> bool) \<Rightarrow> string \<Rightarrow> 'a ContactContext_scheme \<Rightarrow> string \<Rightarrow> Action list"
  where
  "escalationActions ex allowed aiResponse context conversationId' =
     (if allowed ''transfer-to-human'' \<and> shouldEscalate aiResponse context
      then [\<lparr>action_type = ''transfer-to-human'',
             params = [(''conversationId'', JStr conversationId'),
                       (''reason'', JStr (extractEscalationReason ex aiResponse)),
                       (''priority'', JStr ''high'')],
             priority = 10\<rparr>]
      else [])"

definition noteActions ::
  "(string \<Rightarrow> bool) \<Rightarrow> string list \<Rightarrow> string \<Rightarrow> 'a ContactContext_scheme \<Rightarrow> Action list" where
  "noteActions allowed intent' aiResponse context =
     (if allowed ''create-note'' \<and> ''important'' \<in> set intent'
      then [\<lparr>action_type = ''create-note'',
             params = [(''contactId'', JStr (ctx_contact_id context)),
                       (''content'', JStr aiResponse),
                       (''isImportant'', JBool True)],
             priority = 3\<rparr>]
      else [])"

definition tagActions :: "(string \<Rightarrow> bool) \<Rightarrow> string \<Rightarrow> 'a ContactContext_scheme \<Rightarrow> Action list" where
  "tagActions allowed aiResponse context =
     (if allowed ''update-tags''
      then (let newTags = extractTags aiResponse context
            in if length newTags > 0
               then [\<lparr>action_type = ''update-tags'',
                      params = [(''contactId'', JStr (ctx_contact_id context)),
                                (''tags'', JArr (map JStr newTags))],
                      priority = 2\<rparr>]
               else [])
      else [])"

definition productActions ::
  "extractors \<Rightarrow> (string \<Rightarrow> bool) \<Rightarrow> string list \<Rightarrow> string \<Rightarrow> string \<Rightarrow> Action list" where
  "productActions ex allowed intent' aiResponse conversationId' =
     (if allowed ''search-product'' \<and> (''product'' \<in> set intent' \<or> ''stock'' \<in> set intent')
      then (let searchQuery = extractProductQuery ex aiResponse
            in if truthy searchQuery
               then [\<lparr>action_type = ''search-product'',
                      params = [(''query'', JStr (the searchQuery)),
                                (''conversationId'', JStr conversationId')],
                      priority = 6\<rparr>]
               else [])
      else [])"

definition decideActions ::
  "extractors \<Rightarrow> string \<Rightarrow> agent \<Rightarrow> 'a ContactContext_scheme \<Rightarrow> string \<Rightarrow> error + Action list" where
  \<comment> \<open>\<open>typeof agent.allowedActions === "string" ? JSON.parse(...) : agent.allowedActions || []\<close>;
      a parsed value without an \<open>includes\<close> method makes the first check throw; the final sort
      is stable and orders by descending priority\<close>
  "decideActions ex aiResponse a context conversationId' =
     (let allowedActions' = (case allowedActions a of None \<Rightarrow> JArr [] | Some j \<Rightarrow> j) in
      if \<not> canInclude allowedActions'
      then Inl (TypeError ''allowedActions.includes is not a function'')
      else
        (let allowed = jsIncludes allowedActions';
             intent' = detectIntent aiResponse;
             actions =
               linkActions allowed intent' aiResponse conversationId' @
               documentActions allowed intent' aiResponse conversationId' @
               quoteActions allowed intent' context conversationId' @
               meetingActions ex allowed intent' aiResponse context conversationId' @
               escalationActions ex allowed aiResponse context conversationId' @
               noteActions allowed intent' aiResponse context @
               tagActions allowed aiResponse context @
               productActions ex allowed intent' aiResponse conversationId'
         in Inr (sort_key (\<lambda>action. - priority action) actions)))"

section \<open>Message pipeline (the core engine)\<close>

record ProcessMessageInput =
  in_conversationId :: string
  messageContent :: string
  in_organizationId :: string
  in_contactId :: string
  in_channel :: string

record ActionOutcome =
  action :: string
  outcome :: string
  result :: "json option"

record ProcessMessageResult =
  response :: string
  actionsTriggered :: "ActionOutcome list"
  res_creditsUsed :: int
  res_model :: string

record creditRequest =
  cr_organizationId :: string
  amount :: int
  description :: string
  metadata :: "(string \<times> json) list"

text \<open>
  What the pipeline calls and this development does not define: the context builder and
  the prompt builder (each may throw), the action executor (it may change the database and
  may fail), and \<open>consumeCredits\<close> of the billing module, which works on a ledger of its own
  and either throws (\<open>Inl\<close>) or resolves to some value (\<open>Inr\<close>). The two ids are the UUIDs
  that the storage generates for the inserted rows. The statements below hold for every
  choice of these.
\<close>

record ('l, 'r) collaborators =
  buildContext :: "db \<Rightarrow> string \<Rightarrow> string \<Rightarrow> error + ContactContext"
  buildSystemPrompt :: "agent \<Rightarrow> ContactContext \<Rightarrow> error + string"
  helpers :: extractors
  execute :: "Action \<Rightarrow> db \<Rightarrow> db \<times> (error + json)"
  consumeCredits :: "creditRequest \<Rightarrow> 'l \<Rightarrow> 'l \<times> (error + 'r)"
  newAssignmentId :: string
  newMessageId :: string

record 'l world =
  store :: db
  ledger :: 'l

definition getOrAssignAgent ::
  "string \<Rightarrow> db \<Rightarrow> string \<Rightarrow> string \<Rightarrow> db \<times> (error + agentAssignment \<times> agent option)" where
  \<comment> \<open>the open assignment with its agent relation, or a new assignment for the best agent\<close>
  "getOrAssignAgent newId d conversationId' organizationId' =
     (case find (\<lambda>a. conversationId a = conversationId' \<and> unassignedAt a = None)
                (agentAssignments d) of
        Some existing \<Rightarrow>
          (d, Inr (existing, find (\<lambda>a. agent_id a = agentId existing) (agents d)))
      | None \<Rightarrow>
          (case find (\<lambda>c. row_id c = conversationId') (conversations d) of
             None \<Rightarrow> (d, Inl (Error ''Conversation not found''))
           | Some conversation' \<Rightarrow>
               (case selectBestAgent d organizationId'
                       \<lparr>crit_channel = channel conversation',
                        crit_contactId = Some (contactId conversation'),
                        intent = None, campaign = None\<rparr> of
                  None \<Rightarrow> (d, Inl (Error ''No suitable agent found''))
                | Some selectedAgent \<Rightarrow>
                    (let assignment =
                           \<lparr>row_id = newId, contactId = contactId conversation',
                            conversationId = conversationId', agentId = agent_id selectedAgent,
                            unassignedAt = None, messagesHandled = 0, creditsUsed = 0\<rparr>
                     in (d\<lparr>agentAssignments := agentAssignments d @ [assignment]\<rparr>,
                         Inr (assignment, Some selectedAgent))))))"

definition callAIModel :: "string \<Rightarrow> string \<times> int" where
  \<comment> \<open>the placeholder of the source: a fixed text around the user message, 150 tokens\<close>
  "callAIModel userMessage =
     (''This is a placeholder AI response. The actual AI integration will be implemented in production. User message was: ''
        @ [CHR 0x22] @ userMessage @ [CHR 0x22],
      150)"

fun runActions ::
  "(Action \<Rightarrow> db \<Rightarrow> db \<times> (error + json)) \<Rightarrow> Action list \<Rightarrow> db \<Rightarrow> db \<times> (error + json) list" where
  \<comment> \<open>\<open>Promise.allSettled\<close>: every action runs and its success or failure is kept; the
      actions are started in list order\<close>
  "runActions exec [] d = (d, [])"
| "runActions exec (a # as) d =
     (case exec a d of
        (d', r) \<Rightarrow> (case runActions exec as d' of (d'', rs) \<Rightarrow> (d'', r # rs)))"

definition actionJson :: "Action \<Rightarrow> json" where
  "actionJson a = JObj [(''type'', JStr (action_type a)), (''params'', JObj (params a)),
                        (''priority'', JNum (priority a))]"

record pending =
  p_assignment :: agentAssignment
  p_agent :: agent
  p_content :: string
  p_tokensUsed :: int
  p_actions :: "Action list"
  p_results :: "(error + json) list"

definition generateAndSave ::
  "('l, 'r) collaborators \<Rightarrow> int \<Rightarrow> ProcessMessageInput \<Rightarrow> db \<Rightarrow> db \<times> (error + pending)" where
  \<comment> \<open>steps 1 to 8 of \<open>processMessage\<close>: agent, context, history, prompt, model call,
      decision, execution of the actions, and the insert of the outbound message\<close>
  "generateAndSave env now input d =
     (case getOrAssignAgent (newAssignmentId env) d (in_conversationId input)
             (in_organizationId input) of
        (d1, Inl e) \<Rightarrow> (d1, Inl e)
      | (d1, Inr (assignment, None)) \<Rightarrow> (d1, Inl (Error ''No agent available for conversation''))
      | (d1, Inr (assignment, Some a)) \<Rightarrow>
          (case buildContext env d1 (in_contactId input) (in_conversationId input) of
             Inl e \<Rightarrow> (d1, Inl e)
           | Inr context \<Rightarrow>
               (let messages = getConversationHistory d1 (in_conversationId input) 20 in
                case buildSystemPrompt env a context of
                  Inl e \<Rightarrow> (d1, Inl e)
                | Inr systemPrompt' \<Rightarrow>
                    (let aiResponse = callAIModel (messageContent input) in
                     case decideActions (helpers env) (fst aiResponse) a context
                            (in_conversationId input) of
                       Inl e \<Rightarrow> (d1, Inl e)
                     | Inr actions \<Rightarrow>
                         (case runActions (execute env) actions d1 of
                            (d2, actionResults) \<Rightarrow>
                              (d2\<lparr>conversationMessages := conversationMessages d2 @
                                     [\<lparr>message_id = newMessageId env,
                                       message_conversationId = in_conversationId input,
                                       direction = ''outbound'', role = assistant,
                                       content = fst aiResponse, contentType = ''text'',
                                       message_channel = in_channel input, generatedByAi = True,
                                       message_model = Some (model a),
                                       message_creditsUsed = Some (snd aiResponse),
                                       actionTriggered =
                                         (if length actions > 0
                                          then Some (JArr (map actionJson actions)) else None),
                                       createdAt = now\<rparr>]\<rparr>,
                               Inr \<lparr>p_assignment = assignment, p_agent = a,
                                    p_content = fst aiResponse, p_tokensUsed = snd aiResponse,
                                    p_actions = actions, p_results = actionResults\<rparr>))))))"

definition chargeRequest :: "ProcessMessageInput \<Rightarrow> pending \<Rightarrow> creditRequest" where
  "chargeRequest input p =
     \<lparr>cr_organizationId = in_organizationId input, amount = p_tokensUsed p,
      description = ''AI response in conversation '' @ in_conversationId input,
      metadata = [(''conversationId'', JStr (in_conversationId input)),
                  (''agentId'', JStr (agent_id (p_agent p)))]\<rparr>"

definition resultOf :: "pending \<Rightarrow> ProcessMessageResult" where
  "resultOf p =
     \<lparr>response = p_content p,
      actionsTriggered =
        map (\<lambda>(a, r). \<lparr>action = (if action_type a = [] then ''unknown'' else action_type a),
                        outcome = (case r of Inr v \<Rightarrow> ''success'' | Inl e \<Rightarrow> ''failed''),
                        result = (case r of Inr v \<Rightarrow> Some v | Inl e \<Rightarrow> None)\<rparr>)
            (zip (p_actions p) (p_results p)),
      res_creditsUsed = p_tokensUsed p,
      res_model = model (p_agent p)\<rparr>"

definition updateAssignmentStats :: "pending \<Rightarrow> db \<Rightarrow> error + db" where
  \<comment> \<open>step 11, skipped when \<open>assignment.id\<close> is falsy; the update fails when a counter does
      not fit its \<open>integer\<close> column\<close>
  "updateAssignmentStats p d =
     (if row_id (p_assignment p) \<noteq> []
      then (if fitsInteger (messagesHandled (p_assignment p) + 1) \<and>
               fitsInteger (creditsUsed (p_assignment p) + p_tokensUsed p)
            then Inr (d\<lparr>agentAssignments :=
                        map (\<lambda>a. if row_id a = row_id (p_assignment p)
                                 then a\<lparr>messagesHandled := messagesHandled (p_assignment p) + 1,
                                        creditsUsed := creditsUsed (p_assignment p) + p_tokensUsed p\<rparr>
                                 else a)
                            (agentAssignments d)\<rparr>)
            else Inl (Error ''integer out of range''))
      else Inr d)"

definition processMessage ::
  "('l, 'r) collaborators \<Rightarrow> int \<Rightarrow> ProcessMessageInput \<Rightarrow> 'l world
   \<Rightarrow> 'l world \<times> (error + ProcessMessageResult)" where
  \<comment> \<open>the \<open>catch\<close> block logs and rethrows, so an error of any step is the error of the call;
      nothing is rolled back\<close>
  "processMessage env now input w =
     (case generateAndSave env now input (store w) of
        (d1, Inl e) \<Rightarrow> (w\<lparr>store := d1\<rparr>, Inl e)
      | (d1, Inr p) \<Rightarrow>
          (case consumeCredits env (chargeRequest input p) (ledger w) of
             (l1, Inl e) \<Rightarrow> (\<lparr>store = d1, ledger = l1\<rparr>, Inl e)
           | (l1, Inr v) \<Rightarrow>
               (case updateAssignmentStats p d1 of
                  Inl e \<Rightarrow> (\<lparr>store = d1, ledger = l1\<rparr>, Inl e)
                | Inr d2 \<Rightarrow> (\<lparr>store = d2, ledger = l1\<rparr>, Inr (resultOf p)))))"

section \<open>Example data\<close>

definition exampleContact :: "string \<Rightarrow> string option \<Rightarrow> ContactStatus \<Rightarrow> int \<Rightarrow> contact" where
  "exampleContact i e st n =
     \<lparr>contact_id = i, organizationId = ''org'', firstName = ''Ana'', lastName = ''Ruiz'',
      email = e, phone = None, company = None, heatScore = 0, tags = None,
      channelPreference = None, timezone = None, lastInteractionAt = None,
      interactionCount = n, lifetimeValue = Some 0, averageResponseTime = None,
      customFields = None, status = st, mergedWithId = None, mergedContactIds = None,
      updatedAt = 0\<rparr>"

definition exampleRef :: "string \<Rightarrow> string \<Rightarrow> contact_ref" where
  "exampleRef i c = \<lparr>row_id = i, contactId = c\<rparr>"

definition exampleConversation :: "string \<Rightarrow> string \<Rightarrow> conversation" where
  "exampleConversation i c = \<lparr>row_id = i, contactId = c, channel = ''web''\<rparr>"

definition emptyDb :: db where
  "emptyDb = \<lparr>contacts = [], conversations = [], contactAgreements = [], contactNotes = [],
              contactSources = [], agentAssignments = [], formSubmissions = [], voiceCalls = [],
              agents = [], conversationMessages = []\<rparr>"

definition soloDb :: db where
  \<comment> \<open>an organization with a single active contact that has an email address\<close>
  "soloDb = emptyDb\<lparr>contacts := [exampleContact ''a'' (Some ''ana@x.com'') active 3]\<rparr>"

definition trioDb :: "ContactStatus \<Rightarrow> db" where
  \<comment> \<open>three distinct contacts, the first with the given status, and rows that reference them\<close>
  "trioDb st =
     emptyDb\<lparr>contacts := [exampleContact ''p'' None st 1, exampleContact ''d1'' None active 2,
                           exampleContact ''d2'' None active 4],
             conversations := [exampleConversation ''c1'' ''d1'', exampleConversation ''c2'' ''p''],
             contactAgreements := [exampleRef ''g1'' ''d2''],
             contactNotes := [exampleRef ''n1'' ''d1'', exampleRef ''n2'' ''d2'']\<rparr>"

definition coldDb :: db where
  \<comment> \<open>one contact that never interacted\<close>
  "coldDb = emptyDb\<lparr>contacts := [exampleContact ''z'' None active 0]\<rparr>"

definition nameQuery :: contactQuery where
  \<comment> \<open>a profile with a name only\<close>
  "nameQuery = \<lparr>q_email = None, q_phone = None,
                 q_firstName = Some ''Ana'', q_lastName = Some ''Ruiz''\<rparr>"

definition emailQuery :: contactQuery where
  "emailQuery = \<lparr>q_email = Some ''ana@x.com'', q_phone = None,
                  q_firstName = None, q_lastName = None\<rparr>"

definition exampleAgent :: "string \<Rightarrow> string list \<Rightarrow> agent" where
  "exampleAgent i channels =
     \<lparr>agent_id = i, agent_organizationId = ''org'', agentType = custom, voiceProvider = none,
      systemPrompt = ''You are helpful.'', temperature = None, maxTokens = None,
      model = ''gpt-4'', allowedActions = Some (JArr [JStr ''send-link'']),
      assignToChannels = Some (JArr (map JStr channels)), assignToCampaigns = Some (JArr []),
      agent_active = True\<rparr>"

definition agentsDb :: db where
  \<comment> \<open>three active agents, the second one eligible on the whatsapp channel\<close>
  "agentsDb = emptyDb\<lparr>agents := [exampleAgent ''a1'' [], exampleAgent ''a2'' [''whatsapp''],
                                  exampleAgent ''a3'' []]\<rparr>"

definition whatsappCriteria :: AgentSelectionCriteria where
  "whatsappCriteria = \<lparr>crit_channel = ''whatsapp'', crit_contactId = Some ''p'',
                        intent = None, campaign = None\<rparr>"

definition exampleMessage :: "nat \<Rightarrow> MessageRole \<Rightarrow> message" where
  "exampleMessage t r =
     \<lparr>message_id = showNat t, message_conversationId = ''cv'', direction = ''inbound'',
      role = r, content = CHR ''m'' # showNat t, contentType = ''text'',
      message_channel = ''web'', generatedByAi = False, message_model = None,
      message_creditsUsed = None, actionTriggered = None, createdAt = int t\<rparr>"

definition historyDb :: db where
  \<comment> \<open>a conversation of 21 messages, created at times 1 to 21; the fifth is a system message\<close>
  "historyDb =
     emptyDb\<lparr>conversationMessages :=
               map (\<lambda>t. exampleMessage t (if t = 5 then system else user)) [1 ..< 22]\<rparr>"

definition exampleExtractors :: extractors where
  "exampleExtractors = \<lparr>extractTimeProposals = (\<lambda>response. []),
                         extractEscalationReason = (\<lambda>response. ''Complex query''),
                         extractProductQuery = (\<lambda>response. None)\<rparr>"

definition exampleContext :: ContactContext where
  "exampleContext = \<lparr>ctx_contact_id = ''p'', ctx_tags = [], ctx_lifetimeValue = 0\<rparr>"

definition promoUrl :: string where
  "promoUrl = ''https://example.com/promo''"

definition promoResponse :: string where
  "promoResponse = ''Visit '' @ promoUrl @ '' today''"

definition dottedResponse :: string where
  \<comment> \<open>the URL at the end of a sentence\<close>
  "dottedResponse = ''Visit '' @ promoUrl @ ''.''"

definition chatDb :: db where
  \<comment> \<open>one contact with a web conversation, and the three agents of \<open>agentsDb\<close>\<close>
  "chatDb = agentsDb\<lparr>contacts := [exampleContact ''p'' None active 1],
                     conversations := [exampleConversation ''cv'' ''p'']\<rparr>"

definition chatInput :: ProcessMessageInput where
  "chatInput = \<lparr>in_conversationId = ''cv'', messageContent = ''hello'',
                in_organizationId = ''org'', in_contactId = ''p'', in_channel = ''web''\<rparr>"

definition brokeEnv :: "(int, unit) collaborators" where
  \<comment> \<open>the ledger is a balance; the deduction fails when the balance is too low\<close>
  "brokeEnv =
     \<lparr>buildContext = (\<lambda>d contactId' conversationId'. Inr exampleContext),
      buildSystemPrompt = (\<lambda>a context. Inr (systemPrompt a)),
      helpers = exampleExtractors,
      execute = (\<lambda>a d. (d, Inr JNull)),
      consumeCredits = (\<lambda>req balance. if balance < amount req
                                       then (balance, Inl (Error ''Insufficient credits''))
                                       else (balance - amount req, Inr ())),
      newAssignmentId = ''as1'',
      newMessageId = ''out1''\<rparr>"

definition mergeInvariant :: "db \<Rightarrow> bool" where
  \<comment> \<open>every merged contact points at a contact that is active\<close>
  "mergeInvariant d =
     list_all (\<lambda>c. if status c = merged
                   then (case mergedWithId c of
                           None \<Rightarrow> False
                         | Some t \<Rightarrow> list_ex (\<lambda>k. contact_id k = t \<and> status k = active) (contacts d))
                   else True)
              (contacts d)"

section \<open>Properties of the similarity engine\<close>

lemma filter_isDigit_drop:
  "filter isDigit (drop n (filter isDigit s)) = drop n (filter isDigit s)"
  by (rule filter_True) (auto dest: in_set_dropD)

lemma normalizePhoneNumber_fixed:
  assumes "filter isDigit d = d"
    and "\<not> (startsWith d ''1'' \<and> length d = 11)"
    and "\<not> (startsWith d ''52'' \<and> length d = 12)"
  shows "normalizePhoneNumber d = d"
  using assms by (auto simp add: normalizePhoneNumber_def Let_def)

text \<open>
  Claim C6. \<open>normalizePhoneNumber\<close> is idempotent: normalising an already normalised
  phone number leaves it as it is, for every input string.
\<close>

theorem normalizePhoneNumber_idempotent:
  "normalizePhoneNumber (normalizePhoneNumber x) = normalizePhoneNumber x"
proof -
  let ?d = "filter isDigit x"
  consider (us) "startsWith ?d ''1'' \<and> length ?d = 11"
    | (mx) "\<not> (startsWith ?d ''1'' \<and> length ?d = 11)" "startsWith ?d ''52'' \<and> length ?d = 12"
    | (none) "\<not> (startsWith ?d ''1'' \<and> length ?d = 11)" "\<not> (startsWith ?d ''52'' \<and> length ?d = 12)"
    by blast
  then show ?thesis
  proof cases
    case us
    then have r: "normalizePhoneNumber x = drop 1 ?d"
      by (simp add: normalizePhoneNumber_def Let_def)
    have "length (drop 1 ?d) = 10" using us by simp
    then show ?thesis
      unfolding r by (intro normalizePhoneNumber_fixed filter_isDigit_drop) simp_all
  next
    case mx
    then have r: "normalizePhoneNumber x = drop 2 ?d"
      by (simp add: normalizePhoneNumber_def Let_def)
    have "length (drop 2 ?d) = 10" using mx by simp
    then show ?thesis
      unfolding r by (intro normalizePhoneNumber_fixed filter_isDigit_drop) simp_all
  next
    case none
    then have r: "normalizePhoneNumber x = ?d"
      by (auto simp add: normalizePhoneNumber_def Let_def)
    show ?thesis
      unfolding r using none by (intro normalizePhoneNumber_fixed) simp_all
  qed
qed

section \<open>Properties of the heat scorer\<close>

text \<open>
  Claim C5. For every contact record that \<open>calculateHeatScore\<close> is asked about, it returns
  an integer between 0 and 100; for a contact with no \<open>lastInteractionAt\<close>, an
  \<open>interactionCount\<close> of 0, a \<open>lifetimeValue\<close> of 0 and no \<open>averageResponseTime\<close> it returns
  exactly 0.
\<close>

theorem calculateHeatScore_bounded:
  assumes "findContact d i = Some c"
  shows "(\<exists>s. calculateHeatScore now d i = Inr s \<and> 0 \<le> s \<and> s \<le> 100) \<and>
         (lastInteractionAt c = None \<and> interactionCount c = 0 \<and> lifetimeValue c = Some 0 \<and>
          averageResponseTime c = None \<longrightarrow> calculateHeatScore now d i = Inr 0)"
proof
  show "\<exists>s. calculateHeatScore now d i = Inr s \<and> 0 \<le> s \<and> s \<le> 100"
    using assms by (simp add: calculateHeatScore_def Let_def)
next
  show "lastInteractionAt c = None \<and> interactionCount c = 0 \<and> lifetimeValue c = Some 0 \<and>
        averageResponseTime c = None \<longrightarrow> calculateHeatScore now d i = Inr 0"
  proof
    assume cold: "lastInteractionAt c = None \<and> interactionCount c = 0 \<and>
                  lifetimeValue c = Some 0 \<and> averageResponseTime c = None"
    have "recencyScore now (lastInteractionAt c) = 0"
      using cold by (simp add: recencyScore_def)
    moreover have "frequencyScore (interactionCount c) = 0"
      using cold by (simp add: frequencyScore_def)
    moreover have "valueScore (orZero (lifetimeValue c)) = 0"
      using cold by (simp add: valueScore_def orZero_def)
    moreover have "engagementScore (averageResponseTime c) = 0"
      using cold by (simp add: engagementScore_def)
    ultimately show "calculateHeatScore now d i = Inr 0"
      using assms by (simp add: calculateHeatScore_def Let_def)
  qed
qed

theorem calculateHeatScore_bounded_witness:
  "findContact coldDb ''z'' = Some (exampleContact ''z'' None active 0) \<and>
   lastInteractionAt (exampleContact ''z'' None active 0) = None \<and>
   interactionCount (exampleContact ''z'' None active 0) = 0 \<and>
   lifetimeValue (exampleContact ''z'' None active 0) = Some 0 \<and>
   averageResponseTime (exampleContact ''z'' None active 0) = None \<and>
   (\<exists>s. calculateHeatScore 1000 coldDb ''z'' = Inr s \<and> 0 \<le> s \<and> s \<le> 100) \<and>
   calculateHeatScore 1000 coldDb ''z'' = Inr 0"
proof -
  have f: "findContact coldDb ''z'' = Some (exampleContact ''z'' None active 0)"
    by code_simp
  have cold: "lastInteractionAt (exampleContact ''z'' None active 0) = None"
    "interactionCount (exampleContact ''z'' None active 0) = 0"
    "lifetimeValue (exampleContact ''z'' None active 0) = Some 0"
    "averageResponseTime (exampleContact ''z'' None active 0) = None"
    by (simp_all add: exampleContact_def)
  show ?thesis
    using calculateHeatScore_bounded[OF f, of 1000] f cold by simp
qed

section \<open>Properties of the identity resolver\<close>

subsection \<open>Merging contacts\<close>

lemma find_map_keep:
  assumes "\<And>c. contact_id (g c) = contact_id c"
  shows "find (\<lambda>c. contact_id c = i) (map g cs) = map_option g (find (\<lambda>c. contact_id c = i) cs)"
  using assms by (induction cs) simp_all

lemma findContact_in_set:
  "findContact d i = Some c \<Longrightarrow> c \<in> set (contacts d) \<and> contact_id c = i"
  unfolding findContact_def by (induction "contacts d" arbitrary: d) (auto simp: find_Some_iff)

lemma contact_id_mergedFields [simp]:
  "contact_id (mergedFields now pr ds ids h c) = contact_id c"
  by (simp add: mergedFields_def)

lemma status_mergedFields [simp]:
  "status (mergedFields now pr ds ids h c) = status c"
  by (simp add: mergedFields_def)

lemma interactionCount_mergedFields [simp]:
  "interactionCount (mergedFields now pr ds ids h c) = mergedInteractionCount pr ds"
  by (simp add: mergedFields_def)

lemma contact_id_markMerged [simp]: "contact_id (markMerged now p c) = contact_id c"
  by (simp add: markMerged_def)

lemma status_markMerged [simp]: "status (markMerged now p c) = merged"
  by (simp add: markMerged_def)

lemma mergedWithId_markMerged [simp]: "mergedWithId (markMerged now p c) = Some p"
  by (simp add: markMerged_def)

lemma contacts_migrateReferences [simp]:
  "contacts (migrateReferences p ids d) = contacts d"
  by (simp add: migrateReferences_def)

lemma tables_migrateReferences [simp]:
  "conversations (migrateReferences p ids d) = repoint p ids (conversations d)"
  "contactAgreements (migrateReferences p ids d) = repoint p ids (contactAgreements d)"
  "contactNotes (migrateReferences p ids d) = repoint p ids (contactNotes d)"
  by (simp_all add: migrateReferences_def)

lemma foldl_plus_sum_list:
  "foldl (\<lambda>sum dup. sum + f dup) (a::int) xs = a + sum_list (map f xs)"
  by (induction xs arbitrary: a) simp_all

lemma filter_one_id:
  assumes "distinct (map contact_id cs)" and "find (\<lambda>c. contact_id c = b) cs = Some cb"
  shows "filter (\<lambda>c. contact_id c = b) cs = [cb]"
  using assms
proof (induction cs)
  case Nil
  then show ?case by simp
next
  case (Cons x xs)
  show ?case
  proof (cases "contact_id x = b")
    case True
    then have "x = cb" using Cons.prems(2) by simp
    moreover have "filter (\<lambda>c. contact_id c = b) xs = []"
      using Cons.prems(1) True by (auto simp: filter_empty_conv image_iff)
    ultimately show ?thesis using True by simp
  next
    case False
    then show ?thesis using Cons by simp
  qed
qed

lemma sum_two_ids:
  assumes "distinct (map contact_id cs)" and "a \<noteq> b"
    and "find (\<lambda>c. contact_id c = a) cs = Some ca"
    and "find (\<lambda>c. contact_id c = b) cs = Some cb"
  shows "sum_list (map f (filter (\<lambda>c. contact_id c \<in> set [a, b]) cs)) = (f ca + f cb :: int)"
  using assms
proof (induction cs)
  case Nil
  then show ?case by simp
next
  case (Cons x xs)
  consider (isa) "contact_id x = a" | (isb) "contact_id x = b" | (other) "contact_id x \<noteq> a" "contact_id x \<noteq> b"
    by blast
  then show ?case
  proof cases
    case isa
    then have xa: "x = ca" using Cons.prems(3) by simp
    have nb: "contact_id x \<noteq> b" using isa Cons.prems(2) by simp
    have "a \<notin> contact_id ` set xs" using Cons.prems(1) isa by auto
    then have "filter (\<lambda>c. contact_id c \<in> set [a, b]) xs = filter (\<lambda>c. contact_id c = b) xs"
      by (intro filter_cong) auto
    moreover have "filter (\<lambda>c. contact_id c = b) xs = [cb]"
      using Cons.prems nb by (intro filter_one_id) auto
    ultimately show ?thesis using isa xa by simp
  next
    case isb
    then have xb: "x = cb" using Cons.prems(4) by simp
    have na: "contact_id x \<noteq> a" using isb Cons.prems(2) by simp
    have "b \<notin> contact_id ` set xs" using Cons.prems(1) isb by auto
    then have "filter (\<lambda>c. contact_id c \<in> set [a, b]) xs = filter (\<lambda>c. contact_id c = a) xs"
      by (intro filter_cong) auto
    moreover have "filter (\<lambda>c. contact_id c = a) xs = [ca]"
      using Cons.prems na by (intro filter_one_id) auto
    ultimately show ?thesis using isb xb by simp
  next
    case other
    then show ?thesis using Cons by simp
  qed
qed


lemma findContact_recalc:
  assumes "findContact d p = Some c"
  shows "\<exists>d' hs. recalculateHeatScore now d p = (d', Inr hs) \<and>
           contacts d' = map (\<lambda>c. if contact_id c = p then c\<lparr>heatScore := hs, updatedAt := now\<rparr> else c)
                             (contacts d) \<and>
           conversations d' = conversations d \<and> contactAgreements d' = contactAgreements d \<and>
           contactNotes d' = contactNotes d"
  using assms by (simp add: recalculateHeatScore_def calculateHeatScore_def Let_def)

lemma mergeContactsTx_result:
  assumes fp: "findContact d p = Some cp"
    and ne: "filter (\<lambda>c. contact_id c \<in> set ids) (contacts d) \<noteq> []"
    and h: "spreadIds (mergedContactIds cp) = Inr history"
    and fits: "fitsInteger (mergedLifetimeValue cp (filter (\<lambda>c. contact_id c \<in> set ids) (contacts d)))"
              "fitsInteger (mergedInteractionCount cp (filter (\<lambda>c. contact_id c \<in> set ids) (contacts d)))"
  shows "\<exists>d3 up. mergeContactsTx now d p ids = Inr (d3, up) \<and>
           findContact d3 p = Some up \<and>
           contacts d3 =
             map (\<lambda>c. if contact_id c \<in> set ids then markMerged now p c else c)
               (map (\<lambda>c. if contact_id c = p
                         then mergedFields now cp (filter (\<lambda>c. contact_id c \<in> set ids) (contacts d))
                                ids history c
                         else c)
                    (contacts d)) \<and>
           conversations d3 = repoint p ids (conversations d) \<and>
           contactAgreements d3 = repoint p ids (contactAgreements d) \<and>
           contactNotes d3 = repoint p ids (contactNotes d)"
proof -
  let ?D = "filter (\<lambda>c. contact_id c \<in> set ids) (contacts d)"
  let ?upd = "\<lambda>c. if contact_id c = p then mergedFields now cp ?D ids history c else c"
  let ?mark = "\<lambda>c. if contact_id c \<in> set ids then markMerged now p c else c"
  let ?d2 = "migrateReferences p ids (d\<lparr>contacts := map ?upd (contacts d)\<rparr>)"
  let ?d3 = "?d2\<lparr>contacts := map ?mark (contacts ?d2)\<rparr>"
  have "find (\<lambda>c. contact_id c = p) (map ?mark (map ?upd (contacts d))) =
          map_option ?mark (map_option ?upd (find (\<lambda>c. contact_id c = p) (contacts d)))"
    by (simp add: find_map_keep option.map_comp)
  then have "findContact ?d3 p = Some (?mark (?upd cp))"
    using fp by (simp add: findContact_def)
  moreover have "mergeContactsTx now d p ids =
      (case findContact ?d3 p of
         None \<Rightarrow> Inl (Error ''Failed to retrieve updated primary contact'')
       | Some updatedPrimary \<Rightarrow> Inr (?d3, updatedPrimary))"
    using fp ne h fits by (simp add: mergeContactsTx_def Let_def)
  ultimately have "mergeContactsTx now d p ids = Inr (?d3, ?mark (?upd cp))"
    by simp
  moreover have "findContact ?d3 p = Some (?mark (?upd cp))" by fact
  moreover have "contacts ?d3 = map ?mark (map ?upd (contacts d))" by simp
  moreover have "conversations ?d3 = repoint p ids (conversations d)" by simp
  moreover have "contactAgreements ?d3 = repoint p ids (contactAgreements d)" by simp
  moreover have "contactNotes ?d3 = repoint p ids (contactNotes d)" by simp
  ultimately show ?thesis by blast
qed

text \<open>
  Claim C1, as amended. Contact ids are a primary key. For every call
  \<open>mergeContacts(primary, [dup1, dup2])\<close> on three distinct existing contacts, where the
  primary is active before the call, its \<open>mergedContactIds\<close> can be spread (it is null, a
  JSON array or a JSON string), and the sums of the three \<open>interactionCount\<close>s and of the
  three \<open>lifetimeValue\<close>s fit their 32-bit \<open>integer\<close> columns, the call succeeds;
  afterwards the primary is active and both duplicates are merged into it, every
  conversation, agreement and note row that pointed at a duplicate points at the primary
  (the other rows are as before), and the primary's \<open>interactionCount\<close> is the sum of the
  three counts before the merge.
\<close>

theorem mergeContacts_three:
  assumes pk: "distinct (map contact_id (contacts d))"
    and ne: "p \<noteq> d1" "p \<noteq> d2" "d1 \<noteq> d2"
    and fp: "findContact d p = Some cp"
    and f1: "findContact d d1 = Some c1"
    and f2: "findContact d d2 = Some c2"
    and act: "status cp = active"
    and hist: "\<not> isl (spreadIds (mergedContactIds cp))"
    and fitI: "fitsInteger (interactionCount cp + interactionCount c1 + interactionCount c2)"
    and fitV: "fitsInteger (orZero (lifetimeValue cp) + orZero (lifetimeValue c1) +
                            orZero (lifetimeValue c2))"
  shows "\<exists>d' r cp' c1' c2'.
           mergeContacts now d p [d1, d2] = (d', Inr r) \<and>
           findContact d' p = Some cp' \<and> findContact d' d1 = Some c1' \<and>
           findContact d' d2 = Some c2' \<and>
           status cp' = active \<and> status c1' = merged \<and> status c2' = merged \<and>
           mergedWithId c1' = Some p \<and> mergedWithId c2' = Some p \<and>
           interactionCount cp' = interactionCount cp + interactionCount c1 + interactionCount c2 \<and>
           conversations d' =
             map (\<lambda>r. if contactId r = d1 \<or> contactId r = d2 then r\<lparr>contactId := p\<rparr> else r)
                 (conversations d) \<and>
           contactAgreements d' =
             map (\<lambda>r. if contactId r = d1 \<or> contactId r = d2 then r\<lparr>contactId := p\<rparr> else r)
                 (contactAgreements d) \<and>
           contactNotes d' =
             map (\<lambda>r. if contactId r = d1 \<or> contactId r = d2 then r\<lparr>contactId := p\<rparr> else r)
                 (contactNotes d)"
proof -
  define D where "D = filter (\<lambda>c. contact_id c \<in> set [d1, d2]) (contacts d)"
  obtain history where h: "spreadIds (mergedContactIds cp) = Inr history"
    using hist by (cases "spreadIds (mergedContactIds cp)") auto
  define upd where "upd = mergedFields now cp D [d1, d2] history"
  define mark where "mark = markMerged now p"
  have c1in: "c1 \<in> set (contacts d)" "contact_id c1 = d1"
    using findContact_in_set[OF f1] by auto
  then have Dne: "D \<noteq> []"
    unfolding D_def by (auto simp: filter_empty_conv)
  have mic: "mergedInteractionCount cp D =
               interactionCount cp + interactionCount c1 + interactionCount c2"
    using sum_two_ids[OF pk ne(3), of c1 c2 interactionCount] f1 f2
    by (simp add: mergedInteractionCount_def D_def foldl_plus_sum_list findContact_def)
  have mlv: "mergedLifetimeValue cp D =
               orZero (lifetimeValue cp) + orZero (lifetimeValue c1) + orZero (lifetimeValue c2)"
    using sum_two_ids[OF pk ne(3), of c1 c2 "\<lambda>c. orZero (lifetimeValue c)"] f1 f2
    by (simp add: mergedLifetimeValue_def D_def foldl_plus_sum_list findContact_def)
  have fits: "fitsInteger (mergedLifetimeValue cp D)" "fitsInteger (mergedInteractionCount cp D)"
    using fitI fitV by (simp_all add: mic mlv)
  obtain d3 up where tx: "mergeContactsTx now d p [d1, d2] = Inr (d3, up)"
    and c3: "contacts d3 = map (\<lambda>c. if contact_id c \<in> set [d1, d2] then mark c else c)
                             (map (\<lambda>c. if contact_id c = p then upd c else c) (contacts d))"
    and t3: "conversations d3 = repoint p [d1, d2] (conversations d)"
            "contactAgreements d3 = repoint p [d1, d2] (contactAgreements d)"
            "contactNotes d3 = repoint p [d1, d2] (contactNotes d)"
    and fu: "findContact d3 p = Some up"
    using mergeContactsTx_result[OF fp Dne[unfolded D_def] h fits[unfolded D_def], of now]
    unfolding D_def upd_def mark_def by blast
  have idu: "\<And>c. contact_id (upd c) = contact_id c"
    by (simp add: upd_def)
  have keep: "\<And>i. findContact d3 i =
                  map_option (\<lambda>c. if contact_id c \<in> set [d1, d2] then mark c else c)
                    (map_option (\<lambda>c. if contact_id c = p then upd c else c)
                       (findContact d i))"
    unfolding findContact_def c3 by (simp add: find_map_keep upd_def mark_def option.map_comp)
  have p3: "findContact d3 p = Some (upd cp)"
    using fp ne findContact_in_set[OF fp] by (simp add: keep idu)
  have up: "up = upd cp" using fu p3 by simp
  have d13: "findContact d3 d1 = Some (mark c1)"
    using f1 ne findContact_in_set[OF f1] by (simp add: keep idu)
  have d23: "findContact d3 d2 = Some (mark c2)"
    using f2 ne findContact_in_set[OF f2] by (simp add: keep idu)
  obtain d4 hs where rc: "recalculateHeatScore now d3 p = (d4, Inr hs)"
    and c4: "contacts d4 = map (\<lambda>c. if contact_id c = p then c\<lparr>heatScore := hs, updatedAt := now\<rparr> else c)
                               (contacts d3)"
    and t4: "conversations d4 = conversations d3" "contactAgreements d4 = contactAgreements d3"
            "contactNotes d4 = contactNotes d3"
    using findContact_recalc[OF p3] by blast
  have keep4: "\<And>i. findContact d4 i =
                  map_option (\<lambda>c. if contact_id c = p then c\<lparr>heatScore := hs, updatedAt := now\<rparr> else c)
                    (findContact d3 i)"
    unfolding findContact_def c4 by (simp add: find_map_keep)
  have res: "mergeContacts now d p [d1, d2] = (d4, Inr (upd cp))"
    by (simp add: mergeContacts_def tx rc up)
  have p4: "findContact d4 p = Some ((upd cp)\<lparr>heatScore := hs, updatedAt := now\<rparr>)"
    using findContact_in_set[OF fp] by (simp add: keep4 p3 idu)
  have d14: "findContact d4 d1 = Some (mark c1)"
    using findContact_in_set[OF f1] ne by (simp add: keep4 d13 mark_def)
  have d24: "findContact d4 d2 = Some (mark c2)"
    using findContact_in_set[OF f2] ne by (simp add: keep4 d23 mark_def)
  have cnt: "interactionCount (upd cp) = interactionCount cp + interactionCount c1 + interactionCount c2"
    by (simp add: upd_def mic)
  have rp: "\<And>rows. repoint p [d1, d2] rows =
              map (\<lambda>r. if contactId r = d1 \<or> contactId r = d2 then r\<lparr>contactId := p\<rparr> else r) rows"
    by (simp add: repoint_def)
  have tabs: "conversations d4 = repoint p [d1, d2] (conversations d)"
     "contactAgreements d4 = repoint p [d1, d2] (contactAgreements d)"
     "contactNotes d4 = repoint p [d1, d2] (contactNotes d)"
    by (simp_all add: t4 t3)
  show ?thesis
    using res p4 d14 d24 cnt act tabs
    by (simp add: rp mark_def upd_def)
qed

theorem mergeContacts_three_witness:
  "distinct (map contact_id (contacts (trioDb active))) \<and>
   findContact (trioDb active) ''p'' = Some (exampleContact ''p'' None active 1) \<and>
   findContact (trioDb active) ''d1'' = Some (exampleContact ''d1'' None active 2) \<and>
   findContact (trioDb active) ''d2'' = Some (exampleContact ''d2'' None active 4) \<and>
   fitsInteger (interactionCount (exampleContact ''p'' None active 1) +
                interactionCount (exampleContact ''d1'' None active 2) +
                interactionCount (exampleContact ''d2'' None active 4)) \<and>
   (\<exists>d' r cp'. mergeContacts 5 (trioDb active) ''p'' [''d1'', ''d2''] = (d', Inr r) \<and>
      findContact d' ''p'' = Some cp' \<and> status cp' = active \<and> interactionCount cp' = 7 \<and>
      map contactId (conversations d') = [''p'', ''p''])"
proof -
  have pk: "distinct (map contact_id (contacts (trioDb active)))" by code_simp
  have ne: "''p'' \<noteq> ''d1''" "''p'' \<noteq> ''d2''" "''d1'' \<noteq> ''d2''" by simp_all
  have fp: "findContact (trioDb active) ''p'' = Some (exampleContact ''p'' None active 1)"
    by code_simp
  have f1: "findContact (trioDb active) ''d1'' = Some (exampleContact ''d1'' None active 2)"
    by code_simp
  have f2: "findContact (trioDb active) ''d2'' = Some (exampleContact ''d2'' None active 4)"
    by code_simp
  have act: "status (exampleContact ''p'' None active 1) = active" by code_simp
  have hist: "\<not> isl (spreadIds (mergedContactIds (exampleContact ''p'' None active 1)))"
    by code_simp
  have fitI: "fitsInteger (interactionCount (exampleContact ''p'' None active 1) +
                interactionCount (exampleContact ''d1'' None active 2) +
                interactionCount (exampleContact ''d2'' None active 4))"
    by code_simp
  have fitV: "fitsInteger (orZero (lifetimeValue (exampleContact ''p'' None active 1)) +
                orZero (lifetimeValue (exampleContact ''d1'' None active 2)) +
                orZero (lifetimeValue (exampleContact ''d2'' None active 4)))"
    by code_simp
  have ic: "interactionCount (exampleContact ''p'' None active 1) +
            interactionCount (exampleContact ''d1'' None active 2) +
            interactionCount (exampleContact ''d2'' None active 4) = 7"
    by code_simp
  have cv: "map contactId (map (\<lambda>r. if contactId r = ''d1'' \<or> contactId r = ''d2''
                                      then r\<lparr>contactId := ''p''\<rparr> else r)
                                (conversations (trioDb active))) = [''p'', ''p'']"
    by code_simp
  from mergeContacts_three[OF pk ne fp f1 f2 act hist fitI fitV, of 5]
  obtain d' r cp' where res: "mergeContacts 5 (trioDb active) ''p'' [''d1'', ''d2''] = (d', Inr r)"
    "findContact d' ''p'' = Some cp'" "status cp' = active" "interactionCount cp' = 7"
    "map contactId (conversations d') = [''p'', ''p'']"
    using ic cv by auto
  show ?thesis
    by (intro conjI pk fp f1 f2 fitI exI[of _ d'] exI[of _ r] exI[of _ cp'] res)
qed

text \<open>
  Claim C1 as stated fails: \<open>mergeContacts\<close> never looks at the primary's status, so with an
  inactive primary none of the three contacts is active after the merge.
\<close>

theorem mergeContacts_inactive_primary_counterexample:
  "map contact_id (contacts (trioDb inactive)) = [''p'', ''d1'', ''d2''] \<and>
   \<not> isl (snd (mergeContacts 5 (trioDb inactive) ''p'' [''d1'', ''d2''])) \<and>
   map status (contacts (fst (mergeContacts 5 (trioDb inactive) ''p'' [''d1'', ''d2''])))
     = [inactive, merged, merged]"
  by code_simp

text \<open>
  Claim C4, as amended. \<open>mergeContacts\<close> fails with a not-found error and leaves the database
  as it was whenever the primary contact is absent or none of the ids in \<open>duplicateIds\<close>
  names an existing contact.
\<close>

theorem mergeContacts_not_found:
  assumes "findContact d primaryId = None \<or>
           (\<forall>c \<in> set (contacts d). contact_id c \<notin> set duplicateIds)"
  shows "mergeContacts now d primaryId duplicateIds =
           (d, Inl (Error (if findContact d primaryId = None then ''Primary contact not found''
                           else ''No duplicate contacts found'')))"
proof (cases "findContact d primaryId")
  case None
  then show ?thesis by (simp add: mergeContacts_def mergeContactsTx_def)
next
  case (Some primary)
  with assms have "filter (\<lambda>c. contact_id c \<in> set duplicateIds) (contacts d) = []"
    by (auto simp: filter_empty_conv)
  with Some show ?thesis by (simp add: mergeContacts_def mergeContactsTx_def)
qed

theorem mergeContacts_not_found_witness:
  "findContact (trioDb active) ''ghost'' = None \<and>
   mergeContacts 5 (trioDb active) ''ghost'' [''d1''] =
     (trioDb active, Inl (Error ''Primary contact not found'')) \<and>
   list_all (\<lambda>c. contact_id c \<notin> set [''ghost'', ''nobody'']) (contacts (trioDb active)) \<and>
   mergeContacts 5 (trioDb active) ''p'' [''ghost'', ''nobody''] =
     (trioDb active, Inl (Error ''No duplicate contacts found''))"
proof -
  have a: "findContact (trioDb active) ''ghost'' = None" by code_simp
  have b: "list_all (\<lambda>c. contact_id c \<notin> set [''ghost'', ''nobody'']) (contacts (trioDb active))"
    by code_simp
  have c: "findContact (trioDb active) ''p'' \<noteq> None" by code_simp
  from b have b': "\<forall>c \<in> set (contacts (trioDb active)). contact_id c \<notin> set [''ghost'', ''nobody'']"
    by (simp only: list_all_iff)
  show ?thesis
    using mergeContacts_not_found[of "trioDb active" "''ghost''" "[''d1'']" 5]
      mergeContacts_not_found[of "trioDb active" "''p''" "[''ghost'', ''nobody'']" 5]
      a b b' c by simp
qed

text \<open>
  Claim C4 as stated fails: the guard is \<open>duplicates.length === 0\<close>, so an absent id next to
  an existing one is ignored and the merge goes through.
\<close>

theorem mergeContacts_absent_duplicate_counterexample:
  "findContact (trioDb active) ''ghost'' = None \<and>
   \<not> isl (snd (mergeContacts 5 (trioDb active) ''p'' [''d1'', ''ghost''])) \<and>
   map status (contacts (fst (mergeContacts 5 (trioDb active) ''p'' [''d1'', ''ghost''])))
     = [active, merged, active]"
  by code_simp

text \<open>
  Claim C2 at its own example. The email pass of \<open>detectDuplicateContacts\<close> does not leave
  out the contact the profile came from, so \<open>autoMergeHighConfidenceDuplicates\<close> merges an
  active contact that has an email address into itself: afterwards the contact is merged
  and its \<open>mergedWithId\<close> is its own id, and the merge invariant, which held before, is
  broken.
\<close>

theorem autoMerge_marks_contact_merged_with_itself:
  "mergeInvariant soloDb \<and>
   map (\<lambda>c. (contact_id c, status c, mergedWithId c))
       (contacts (fst (autoMergeHighConfidenceDuplicates 1000 soloDb ''org'')))
     = [(''a'', merged, Some ''a'')] \<and>
   \<not> mergeInvariant (fst (autoMergeHighConfidenceDuplicates 1000 soloDb ''org''))"
  by code_simp

subsection \<open>Confidence of duplicate candidates\<close>

lemma calculateSimilarity_le_one: "calculateSimilarity a b \<le> 1"
  by (simp add: calculateSimilarity_def Let_def)

lemma fuzzyConfidence_le:
  assumes "avg \<le> 1"
  shows "fuzzyConfidence q m avg \<le> 0.95"
proof -
  have base: "avg * 0.7 \<le> 0.95" using assms by simp
  show ?thesis
    unfolding fuzzyConfidence_def Let_def using base by (simp add: min_def)
qed

lemma emailPass_confidence: "c \<in> set (emailPass d org q) \<Longrightarrow> confidence c = 1"
  by (auto simp: emailPass_def split: if_splits)

lemma phoneStep_confidence:
  "c \<in> set (phoneStep n cands m) \<Longrightarrow> c \<in> set cands \<or> confidence c = 0.95"
  by (auto simp: phoneStep_def split: if_splits)

lemma phoneFold_confidence:
  "c \<in> set (foldl (phoneStep n) cands ms) \<Longrightarrow> c \<in> set cands \<or> confidence c = 0.95"
proof (induction ms arbitrary: cands)
  case Nil
  then show ?case by simp
next
  case (Cons m ms)
  then have "c \<in> set (phoneStep n cands m) \<or> confidence c = 0.95" by simp
  then show ?case using phoneStep_confidence by blast
qed

lemma phonePass_confidence:
  "c \<in> set (phonePass d org q cands) \<Longrightarrow> c \<in> set cands \<or> confidence c = 0.95"
  by (auto simp: phonePass_def dest: phoneFold_confidence split: if_splits)

lemma fuzzyStep_confidence:
  "c \<in> set (fuzzyStep q th cands m) \<Longrightarrow> c \<in> set cands \<or> confidence c \<le> 0.95"
proof -
  have avg: "(calculateSimilarity a b + calculateSimilarity a' b') / 2 \<le> 1" for a b a' b'
    using calculateSimilarity_le_one[of a b] calculateSimilarity_le_one[of a' b'] by simp
  assume "c \<in> set (fuzzyStep q th cands m)"
  then show ?thesis
    using fuzzyConfidence_le[OF avg]
    by (auto simp: fuzzyStep_def Let_def split: if_splits)
qed

lemma fuzzyFold_confidence:
  "c \<in> set (foldl (fuzzyStep q th) cands ms) \<Longrightarrow> c \<in> set cands \<or> confidence c \<le> 0.95"
proof (induction ms arbitrary: cands)
  case Nil
  then show ?case by simp
next
  case (Cons m ms)
  then have "c \<in> set (fuzzyStep q th cands m) \<or> confidence c \<le> 0.95" by simp
  then show ?case using fuzzyStep_confidence by blast
qed

lemma fuzzyPass_confidence:
  "c \<in> set (fuzzyPass d org q th cands) \<Longrightarrow> c \<in> set cands \<or> confidence c \<le> 0.95"
  by (auto simp: fuzzyPass_def dest: fuzzyFold_confidence split: if_splits)

text \<open>
  Claim C10. Every candidate that \<open>detectDuplicateContacts\<close> returns has a confidence of at
  most 1.0; every candidate that the fuzzy-name pass adds has a confidence of at most 0.95
  (the base is \<open>avgSimilarity * 0.7\<close> and each boost is capped at 0.95); so a returned
  candidate with confidence exactly 1.0 comes from the exact-email pass. Confidences are
  real numbers here, the idealisation of the doubles of the source.
\<close>

theorem detectDuplicateContacts_confidence:
  "(\<forall>c \<in> set (detectDuplicateContacts d org q th). confidence c \<le> 1) \<and>
   (\<forall>c \<in> set (fuzzyPass d org q th cands). c \<notin> set cands \<longrightarrow> confidence c \<le> 0.95) \<and>
   (\<forall>c \<in> set (detectDuplicateContacts d org q th).
      confidence c = 1 \<longrightarrow> c \<in> set (emailPass d org q))"
proof -
  have cases: "c \<in> set (emailPass d org q) \<or> confidence c = 0.95 \<or> confidence c \<le> 0.95"
    if "c \<in> set (detectDuplicateContacts d org q th)" for c
    using that fuzzyPass_confidence phonePass_confidence
    unfolding detectDuplicateContacts_def by fastforce
  have one: "confidence c \<le> 1" if "c \<in> set (detectDuplicateContacts d org q th)" for c
    using cases[OF that] emailPass_confidence[of c d org q] by auto
  have two: "confidence c \<le> 0.95"
    if "c \<in> set (fuzzyPass d org q th cands)" "c \<notin> set cands" for c
    using that fuzzyPass_confidence by blast
  have three: "c \<in> set (emailPass d org q)"
    if "c \<in> set (detectDuplicateContacts d org q th)" "confidence c = 1" for c
    using cases[OF that(1)] that(2) by auto
  show ?thesis using one two three by blast
qed

theorem detectDuplicateContacts_confidence_witness:
  "detectDuplicateContacts (trioDb active) ''org'' nameQuery 0.9 \<noteq> [] \<and>
   list_all (\<lambda>c. confidence c \<le> 1) (detectDuplicateContacts (trioDb active) ''org'' nameQuery 0.9) \<and>
   hd (fuzzyPass (trioDb active) ''org'' nameQuery 0.9 [])
     \<in> set (fuzzyPass (trioDb active) ''org'' nameQuery 0.9 []) \<and>
   confidence (hd (fuzzyPass (trioDb active) ''org'' nameQuery 0.9 [])) \<le> 0.95 \<and>
   hd (detectDuplicateContacts soloDb ''org'' emailQuery 0.9)
     \<in> set (detectDuplicateContacts soloDb ''org'' emailQuery 0.9) \<and>
   confidence (hd (detectDuplicateContacts soloDb ''org'' emailQuery 0.9)) = 1 \<and>
   hd (detectDuplicateContacts soloDb ''org'' emailQuery 0.9) \<in> set (emailPass soloDb ''org'' emailQuery)"
proof -
  have ne: "detectDuplicateContacts (trioDb active) ''org'' nameQuery 0.9 \<noteq> []"
    by code_simp
  have fz: "hd (fuzzyPass (trioDb active) ''org'' nameQuery 0.9 [])
              \<in> set (fuzzyPass (trioDb active) ''org'' nameQuery 0.9 [])"
    by code_simp
  have em: "hd (detectDuplicateContacts soloDb ''org'' emailQuery 0.9)
              \<in> set (detectDuplicateContacts soloDb ''org'' emailQuery 0.9)"
    by code_simp
  have one: "confidence (hd (detectDuplicateContacts soloDb ''org'' emailQuery 0.9)) = 1"
    by code_simp
  note t1 = detectDuplicateContacts_confidence[of "trioDb active" "''org''" nameQuery "0.9" "[]"]
  note t2 = detectDuplicateContacts_confidence[of soloDb "''org''" emailQuery "0.9" "[]"]
  have a: "list_all (\<lambda>c. confidence c \<le> 1)
             (detectDuplicateContacts (trioDb active) ''org'' nameQuery 0.9)"
    using t1 by (simp add: list_all_iff)
  have b: "confidence (hd (fuzzyPass (trioDb active) ''org'' nameQuery 0.9 [])) \<le> 0.95"
    using t1 fz by simp
  have c: "hd (detectDuplicateContacts soloDb ''org'' emailQuery 0.9)
             \<in> set (emailPass soloDb ''org'' emailQuery)"
    using t2 em one by blast
  show ?thesis by (intro conjI ne a fz b em one c)
qed

section \<open>Properties of the agent router\<close>

lemma hd_insort_key:
  "hd (insort_key g x ys) = (if ys = [] then x else if g x \<le> g (hd ys) then x else hd ys)"
  by (cases ys) auto

lemma sort_key_Nil_iff: "sort_key g xs = [] \<longleftrightarrow> xs = []"
  by (metis length_sort list.size(3) length_0_conv)

lemma first_maximum:
  fixes f :: "'a \<Rightarrow> int"
  assumes "xs \<noteq> []"
  shows "\<exists>pre post. xs = pre @ hd (sort_key (\<lambda>x. - f x) xs) # post \<and>
           (\<forall>b \<in> set pre. f b < f (hd (sort_key (\<lambda>x. - f x) xs))) \<and>
           (\<forall>b \<in> set post. f b \<le> f (hd (sort_key (\<lambda>x. - f x) xs)))"
  using assms
proof (induction xs)
  case Nil
  then show ?case by simp
next
  case (Cons x xs)
  show ?case
  proof (cases "xs = []")
    case True
    then show ?thesis by (intro exI[of _ "[]"]) simp
  next
    case False
    let ?a = "hd (sort_key (\<lambda>x. - f x) xs)"
    from Cons.IH[OF False] obtain pre post where
      dec: "xs = pre @ ?a # post" and lo: "\<forall>b \<in> set pre. f b < f ?a"
      and hi: "\<forall>b \<in> set post. f b \<le> f ?a"
      by blast
    have ne: "sort_key (\<lambda>x. - f x) xs \<noteq> []" using False by (simp add: sort_key_Nil_iff)
    show ?thesis
    proof (cases "f ?a \<le> f x")
      case True
      then have h: "hd (sort_key (\<lambda>x. - f x) (x # xs)) = x"
        using ne by (simp add: hd_insort_key)
      have "\<forall>b \<in> set xs. f b \<le> f x"
      proof
        fix b assume "b \<in> set xs"
        then have "b \<in> set pre \<or> b = ?a \<or> b \<in> set post"
          using dec by (metis Un_iff set_ConsD set_append)
        then show "f b \<le> f x" using lo hi True by force
      qed
      then show ?thesis unfolding h by (intro exI[of _ "[]"] exI[of _ xs]) simp
    next
      case False
      then have h: "hd (sort_key (\<lambda>x. - f x) (x # xs)) = ?a"
        using ne by (simp add: hd_insort_key)
      show ?thesis
        unfolding h using dec lo hi False
        by (intro exI[of _ "x # pre"] exI[of _ post]) auto
    qed
  qed
qed


lemma agentScore_formula:
  "agentScore criteria a =
     (if arrayIncludes (parsedOrEmpty (assignToChannels a)) (crit_channel criteria) then 30 else 0) +
     (if truthy (campaign criteria) \<and>
         arrayIncludes (parsedOrEmpty (assignToCampaigns a)) (the (campaign criteria))
      then 25 else 0) +
     (if (agentType a = qualifier \<and> \<not> truthy (crit_contactId criteria)) \<or>
         (agentType a = sales \<and> intent criteria = Some ''purchase'') \<or>
         (agentType a = support \<and> intent criteria = Some ''help'') \<or>
         (agentType a = scheduler \<and> intent criteria = Some ''schedule'')
      then 20 else 0) +
     (if crit_channel criteria = ''calls'' \<and> voiceProvider a \<noteq> none then 15 else 0) +
     10"
proof -
  have arr: "arrayIncludes j s \<Longrightarrow> isArray j" for j s
    by (cases j) (simp_all add: arrayIncludes_def isArray_def)
  show ?thesis
    unfolding agentScore_def Let_def using arr by auto
qed

lemma selectBestAgent_choice:
  "(selectBestAgent d org criteria = None \<longleftrightarrow> activeAgents d org = []) \<and>
   (\<forall>a. selectBestAgent d org criteria = Some a \<longrightarrow>
      (\<exists>pre post. activeAgents d org = pre @ a # post \<and>
         (\<forall>b \<in> set pre. agentScore criteria b < agentScore criteria a) \<and>
         (\<forall>b \<in> set post. agentScore criteria b \<le> agentScore criteria a)))"
proof (cases "activeAgents d org = []")
  case True
  then show ?thesis by (simp add: selectBestAgent_def)
next
  case False
  define sc where "sc = map (\<lambda>a. (a, agentScore criteria a)) (activeAgents d org)"
  define best where "best = hd (sort_key (\<lambda>s. - snd s) sc)"
  have scne: "sc \<noteq> []" using False by (simp add: sc_def)
  then have "sort_key (\<lambda>s. - snd s) sc \<noteq> []" by (simp add: sort_key_Nil_iff)
  then have sel: "selectBestAgent d org criteria = Some (fst best)"
    using False unfolding best_def sc_def
    by (cases "sort_key (\<lambda>s. - snd s) (map (\<lambda>a. (a, agentScore criteria a)) (activeAgents d org))")
       (simp_all add: selectBestAgent_def Let_def)
  from first_maximum[OF scne, of snd] obtain pre post where
    dec: "sc = pre @ best # post" and lo: "\<forall>b \<in> set pre. snd b < snd best"
    and hi: "\<forall>b \<in> set post. snd b \<le> snd best"
    unfolding best_def by blast
  have pair: "snd s = agentScore criteria (fst s)" if "s \<in> set sc" for s
    using that by (auto simp: sc_def)
  have mem: "set pre \<subseteq> set sc" "set post \<subseteq> set sc" "best \<in> set sc"
    by (auto simp add: dec)
  have "map fst sc = activeAgents d org" by (simp add: sc_def comp_def)
  then have dec': "activeAgents d org = map fst pre @ fst best # map fst post"
    using arg_cong[OF dec, of "map fst"] by simp
  have lo': "agentScore criteria b < agentScore criteria (fst best)" if "b \<in> set (map fst pre)" for b
  proof -
    from that obtain s where s: "s \<in> set pre" "b = fst s" by auto
    then have "snd s < snd best" using lo by blast
    then show ?thesis using pair[of s] pair[of best] mem s by auto
  qed
  have hi': "agentScore criteria b \<le> agentScore criteria (fst best)" if "b \<in> set (map fst post)" for b
  proof -
    from that obtain s where s: "s \<in> set post" "b = fst s" by auto
    then have "snd s \<le> snd best" using hi by blast
    then show ?thesis using pair[of s] pair[of best] mem s by auto
  qed
  show ?thesis
  proof (intro conjI allI impI)
    show "selectBestAgent d org criteria = None \<longleftrightarrow> activeAgents d org = []"
      using False sel by simp
  next
    fix a assume "selectBestAgent d org criteria = Some a"
    then have "a = fst best" using sel by simp
    then show "\<exists>pre post. activeAgents d org = pre @ a # post \<and>
         (\<forall>b \<in> set pre. agentScore criteria b < agentScore criteria a) \<and>
         (\<forall>b \<in> set post. agentScore criteria b \<le> agentScore criteria a)"
      using dec' lo' hi' by blast
  qed
qed

text \<open>
  Claim C7. \<open>selectBestAgent\<close> returns null exactly when the organization has no active
  agent. Otherwise it returns an active agent whose score is maximal among the active
  agents and that comes first, in the order the agents were read, among those with that
  score. The score is the sum of 30 for an eligible channel, 25 for a matching campaign, 20
  for the type and intent rule, 15 for a voice provider on the calls channel, and 10.
\<close>

theorem selectBestAgent_first_maximum:
  "(selectBestAgent d org criteria = None \<longleftrightarrow> activeAgents d org = []) \<and>
   (\<forall>a. selectBestAgent d org criteria = Some a \<longrightarrow>
      (\<exists>pre post. activeAgents d org = pre @ a # post \<and>
         (\<forall>b \<in> set pre. agentScore criteria b < agentScore criteria a) \<and>
         (\<forall>b \<in> set post. agentScore criteria b \<le> agentScore criteria a))) \<and>
   (\<forall>a. agentScore criteria a =
      (if arrayIncludes (parsedOrEmpty (assignToChannels a)) (crit_channel criteria) then 30 else 0) +
      (if truthy (campaign criteria) \<and>
          arrayIncludes (parsedOrEmpty (assignToCampaigns a)) (the (campaign criteria))
       then 25 else 0) +
      (if (agentType a = qualifier \<and> \<not> truthy (crit_contactId criteria)) \<or>
          (agentType a = sales \<and> intent criteria = Some ''purchase'') \<or>
          (agentType a = support \<and> intent criteria = Some ''help'') \<or>
          (agentType a = scheduler \<and> intent criteria = Some ''schedule'')
       then 20 else 0) +
      (if crit_channel criteria = ''calls'' \<and> voiceProvider a \<noteq> none then 15 else 0) +
      10)"
  using selectBestAgent_choice[of d org criteria] agentScore_formula[of criteria]
  by (intro conjI allI) blast+

theorem selectBestAgent_first_maximum_witness:
  "selectBestAgent agentsDb ''org'' whatsappCriteria = Some (exampleAgent ''a2'' [''whatsapp'']) \<and>
   (\<exists>pre post. activeAgents agentsDb ''org'' = pre @ exampleAgent ''a2'' [''whatsapp''] # post \<and>
      (\<forall>b \<in> set pre. agentScore whatsappCriteria b
                       < agentScore whatsappCriteria (exampleAgent ''a2'' [''whatsapp''])) \<and>
      (\<forall>b \<in> set post. agentScore whatsappCriteria b
                        \<le> agentScore whatsappCriteria (exampleAgent ''a2'' [''whatsapp'']))) \<and>
   activeAgents emptyDb ''org'' = [] \<and>
   selectBestAgent emptyDb ''org'' whatsappCriteria = None"
proof -
  have sel: "selectBestAgent agentsDb ''org'' whatsappCriteria
               = Some (exampleAgent ''a2'' [''whatsapp''])"
    by code_simp
  have none: "activeAgents emptyDb ''org'' = []"
    by code_simp
  show ?thesis
    using selectBestAgent_first_maximum[of agentsDb "''org''" whatsappCriteria]
      selectBestAgent_first_maximum[of emptyDb "''org''" whatsappCriteria] sel none
    by (intro conjI) blast+
qed


section \<open>Properties of the conversation history\<close>

lemma filter_same_key:
  assumes "distinct (map k zs)" and "m \<in> set zs"
  shows "filter (\<lambda>x. k m = k x) zs = [m]"
  using assms
proof (induction zs)
  case Nil
  then show ?case by simp
next
  case (Cons z zs)
  show ?case
  proof (cases "m = z")
    case True
    have "filter (\<lambda>x. k z = k x) zs = []"
      using Cons.prems(1) by (auto simp: filter_empty_conv image_iff)
    then show ?thesis using True by simp
  next
    case False
    then have "m \<in> set zs" using Cons.prems(2) by simp
    moreover have "k m \<noteq> k z" using Cons.prems(1) \<open>m \<in> set zs\<close> by (auto simp: image_iff)
    ultimately show ?thesis using Cons by simp
  qed
qed

lemma sort_key_descending:
  fixes k :: "'a \<Rightarrow> int"
  assumes "distinct (map k xs)"
  shows "sort_key (\<lambda>m. - k m) xs = rev (sort_key k xs)"
proof (rule properties_for_sort_key)
  show "mset (rev (sort_key k xs)) = mset xs" by simp
next
  have "sorted_wrt (\<lambda>x y. k x \<le> k y) (sort_key k xs)"
    using sorted_sort_key[of k xs] by (simp add: sorted_map)
  then show "sorted (map (\<lambda>m. - k m) (rev (sort_key k xs)))"
    by (simp add: sorted_map sorted_wrt_rev)
next
  fix m assume m: "m \<in> set (rev (sort_key k xs))"
  have d: "distinct (map k (rev (sort_key k xs)))"
    using assms by (metis distinct_rev mset_eq_imp_distinct_iff mset_map mset_sort rev_map)
  have "filter (\<lambda>x. k m = k x) (rev (sort_key k xs)) = [m]"
    using filter_same_key[OF d m] .
  moreover have "filter (\<lambda>x. k m = k x) xs = [m]"
    using filter_same_key[OF assms, of m] m by simp
  ultimately show "filter (\<lambda>x. - k m = - k x) (rev (sort_key k xs)) = filter (\<lambda>x. - k m = - k x) xs"
    by simp
qed

text \<open>
  Claim C8, as amended. When the messages of a conversation have distinct creation times,
  \<open>getConversationHistory(conversationId, limit)\<close> returns, in chronological order, the
  non-system messages among the \<open>limit\<close> most recent messages of the conversation: the limit
  is applied before the system messages are dropped.
\<close>

theorem getConversationHistory_recent:
  assumes "distinct (map createdAt (messagesOf d cid))"
  shows "getConversationHistory d cid limit =
           map (\<lambda>msg. (role msg, content msg))
               (filter (\<lambda>msg. role msg \<noteq> system) (recentMessages d cid limit))"
proof -
  let ?ms = "messagesOf d cid"
  have "rev (take limit (sort_key (\<lambda>m. - createdAt m) ?ms)) =
        drop (length ?ms - limit) (sort_key createdAt ?ms)"
    by (simp add: sort_key_descending[OF assms] rev_take)
  then show ?thesis
    by (simp add: getConversationHistory_def recentMessages_def Let_def filter_map comp_def)
qed

theorem getConversationHistory_recent_witness:
  "distinct (map createdAt (messagesOf historyDb ''cv'')) \<and>
   getConversationHistory historyDb ''cv'' 20 =
     map (\<lambda>msg. (role msg, content msg))
         (filter (\<lambda>msg. role msg \<noteq> system) (recentMessages historyDb ''cv'' 20))"
proof -
  have d: "distinct (map createdAt (messagesOf historyDb ''cv''))"
    by code_simp
  show ?thesis
    using getConversationHistory_recent[OF d, of 20] d by simp
qed

text \<open>
  Claim C8 as stated fails: in a conversation of 21 messages whose fifth is a system
  message there are 20 non-system messages, and the call with limit 20 returns 19 of them.
\<close>

theorem getConversationHistory_counterexample:
  "length (filter (\<lambda>m. role m \<noteq> system) (messagesOf historyDb ''cv'')) = 20 \<and>
   length (specHistory historyDb ''cv'' 20) = 20 \<and>
   length (getConversationHistory historyDb ''cv'' 20) = 19 \<and>
   getConversationHistory historyDb ''cv'' 20 \<noteq> specHistory historyDb ''cv'' 20"
  by code_simp

section \<open>Properties of the decision maker\<close>

lemma startsWith_iff: "startsWith s p \<longleftrightarrow> (\<exists>b. s = p @ b)"
  unfolding startsWith_def
  by (metis append_eq_conv_conj append_take_drop_id)

lemma strIncludes_iff: "strIncludes s p \<longleftrightarrow> (\<exists>a b. s = a @ p @ b)"
proof (induction s)
  case Nil
  then show ?case by auto
next
  case (Cons c cs)
  show ?case
  proof
    assume "strIncludes (c # cs) p"
    then consider "startsWith (c # cs) p" | "strIncludes cs p" by auto
    then show "\<exists>a b. c # cs = a @ p @ b"
    proof cases
      case 1
      then show ?thesis using startsWith_iff by (metis append_Nil)
    next
      case 2
      then obtain a b where "cs = a @ p @ b" using Cons.IH by blast
      then have "c # cs = (c # a) @ p @ b" by simp
      then show ?thesis by blast
    qed
  next
    assume "\<exists>a b. c # cs = a @ p @ b"
    then obtain a b where ab: "c # cs = a @ p @ b" by blast
    show "strIncludes (c # cs) p"
    proof (cases a)
      case Nil
      then have "startsWith (c # cs) p" using ab startsWith_iff by auto
      then show ?thesis by simp
    next
      case (Cons x a')
      then have "cs = a' @ p @ b" using ab by simp
      then show ?thesis using Cons.IH by auto
    qed
  qed
qed

lemma takeWhile_stops:
  assumes "post = [] \<or> \<not> P (hd post)" and "\<forall>c \<in> set u. P c"
  shows "takeWhile P (u @ post) = u"
  using assms by (cases post) (auto simp: takeWhile_append2)

lemma matchUrl_promo:
  assumes "post = [] \<or> isSpace (hd post)"
  shows "matchUrl (promoUrl @ post) = Some promoUrl"
proof -
  have "takeWhile (\<lambda>c. \<not> isSpace c) (''example.com/promo'' @ post) = ''example.com/promo''"
    using assms by (intro takeWhile_stops) (auto simp: isSpace_def)
  then show ?thesis
    by (simp add: matchUrl_def promoUrl_def startsWith_def Let_def)
qed

lemma matchUrl_shape:
  assumes "matchUrl s = Some u"
  shows "\<exists>rest. s = u @ rest \<and> (\<forall>c \<in> set u. \<not> isSpace c) \<and> u \<noteq> []"
proof -
  from assms have h: "startsWith s ''http''"
    by (auto simp: matchUrl_def split: if_splits)
  then obtain r where s: "s = ''http'' @ r" using startsWith_iff by blast
  define scheme where "scheme = (if startsWith r ''s'' then ''https'' else ''http'')"
  define r' where "r' = (if startsWith r ''s'' then drop 1 r else r)"
  have sr: "s = scheme @ r'"
    unfolding scheme_def r'_def using s startsWith_iff[of r "''s''"] by auto
  from assms have c: "startsWith r' ''://''"
    and u: "u = scheme @ ''://'' @ takeWhile (\<lambda>c. \<not> isSpace c) (drop 3 r')"
    unfolding r'_def scheme_def using s h
    by (auto simp: matchUrl_def Let_def split: if_splits)
  from c obtain t where t: "r' = ''://'' @ t" using startsWith_iff by blast
  have "s = u @ dropWhile (\<lambda>c. \<not> isSpace c) t"
    using sr t u by simp
  moreover have "\<forall>c \<in> set u. \<not> isSpace c"
    unfolding u scheme_def by (auto simp: isSpace_def dest: set_takeWhileD)
  moreover have "u \<noteq> []" unfolding u scheme_def by simp
  ultimately show ?thesis by blast
qed

lemma prefix_takeWhile_length:
  assumes "s = u @ rest" and "\<forall>c \<in> set u. P c"
  shows "length u \<le> length (takeWhile P s)"
  using assms by (simp add: takeWhile_append2)

lemma urlsFrom_finds:
  assumes "post = [] \<or> isSpace (hd post)"
    and "pre = [] \<or> isSpace (last pre)"
    and "k \<le> length (takeWhile (\<lambda>c. \<not> isSpace c) pre)"
  shows "promoUrl \<in> set (urlsFrom k (pre @ promoUrl @ post))"
  using assms(2,3)
proof (induction pre arbitrary: k)
  case Nil
  then have k: "k = 0" by simp
  obtain c cs where cc: "promoUrl @ post = c # cs"
    by (simp add: promoUrl_def)
  show ?case
    using matchUrl_promo[OF assms(1)] unfolding k by (simp add: cc)
next
  case (Cons c pre')
  have sp: "\<exists>x \<in> set (c # pre'). \<not> \<not> isSpace x"
    using Cons.prems(1) by (metis last_in_set list.distinct(1))
  have tw: "takeWhile (\<lambda>c. \<not> isSpace c) ((c # pre') @ promoUrl @ post)
              = takeWhile (\<lambda>c. \<not> isSpace c) (c # pre')"
    using sp by (intro takeWhile_append1[where x="SOME x. x \<in> set (c # pre') \<and> isSpace x"])
                (metis (mono_tags, lifting) someI_ex)+
  show ?case
  proof (cases "k > 0")
    case True
    then have ns: "\<not> isSpace c" using Cons.prems(2) by (auto split: if_splits)
    then have ne: "pre' \<noteq> []" using Cons.prems(1) by auto
    then have l: "pre' = [] \<or> isSpace (last pre')" using Cons.prems(1) by simp
    have "k - 1 \<le> length (takeWhile (\<lambda>c. \<not> isSpace c) pre')"
      using Cons.prems(2) ns by simp
    from Cons.IH[OF l this] show ?thesis using True by simp
  next
    case False
    then have k: "k = 0" by simp
    show ?thesis
    proof (cases "matchUrl (c # pre' @ promoUrl @ post)")
      case None
      have l: "pre' = [] \<or> isSpace (last pre')" using Cons.prems(1) by (cases pre') auto
      from Cons.IH[OF l, of 0] show ?thesis using None k by simp
    next
      case (Some u)
      from matchUrl_shape[OF Some] obtain rest where
        dec: "c # pre' @ promoUrl @ post = u @ rest" and ns: "\<forall>c \<in> set u. \<not> isSpace c"
        and ne: "u \<noteq> []"
        by blast
      have cu: "\<not> isSpace c" using dec ns ne by (cases u) auto
      then have pne: "pre' \<noteq> []" using Cons.prems(1) by auto
      then have l: "pre' = [] \<or> isSpace (last pre')" using Cons.prems(1) by simp
      have "length u \<le> length (takeWhile (\<lambda>c. \<not> isSpace c) ((c # pre') @ promoUrl @ post))"
        using prefix_takeWhile_length[of "(c # pre') @ promoUrl @ post" u rest] dec ns by simp
      then have "length u - 1 \<le> length (takeWhile (\<lambda>c. \<not> isSpace c) pre')"
        unfolding tw using cu by simp
      from Cons.IH[OF l this] show ?thesis using Some k by simp
    qed
  qed
qed

lemma extractUrls_promo:
  assumes "pre = [] \<or> isSpace (last pre)" and "post = [] \<or> isSpace (hd post)"
  shows "promoUrl \<in> set (extractUrls (pre @ promoUrl @ post))"
  unfolding extractUrls_def using urlsFrom_finds[OF assms(2) assms(1), of 0] by simp


lemma priority_ten_only_escalation:
  "x \<in> set (linkActions al i r c) \<Longrightarrow> priority x \<noteq> 10"
  "x \<in> set (documentActions al i r c) \<Longrightarrow> priority x \<noteq> 10"
  "x \<in> set (quoteActions al i ctx c) \<Longrightarrow> priority x \<noteq> 10"
  "x \<in> set (meetingActions ex al i r ctx c) \<Longrightarrow> priority x \<noteq> 10"
  "x \<in> set (noteActions al i r ctx) \<Longrightarrow> priority x \<noteq> 10"
  "x \<in> set (tagActions al r ctx) \<Longrightarrow> priority x \<noteq> 10"
  "x \<in> set (productActions ex al i r c) \<Longrightarrow> priority x \<noteq> 10"
  by (auto simp: linkActions_def documentActions_def quoteActions_def meetingActions_def
      noteActions_def tagActions_def productActions_def Let_def split: if_splits)

lemma escalationActions_empty:
  "\<not> shouldEscalate r ctx \<Longrightarrow> escalationActions ex al r ctx c = []"
  by (simp add: escalationActions_def)

text \<open>
  Claim C9, as amended. For an agent whose \<open>allowedActions\<close> is an array that includes
  \<open>send-link\<close>, a contact that is not a VIP with a lifetime value over 100000, and a response
  text with no escalation phrase in which \<open>https://example.com/promo\<close> stands between
  whitespace or the ends of the text, \<open>decideActions\<close> returns a list with no priority-10
  action and with a \<open>send-link\<close> action whose \<open>params.url\<close> is that URL, sorted by descending
  priority.
\<close>

theorem decideActions_promo_link:
  assumes allow: "allowedActions a = Some (JArr xs)" "JStr ''send-link'' \<in> set xs"
    and shape: "aiResponse = pre @ promoUrl @ post"
    and delim: "pre = [] \<or> isSpace (last pre)" "post = [] \<or> isSpace (hd post)"
    and noesc: "\<not> list_ex (\<lambda>phrase. strIncludes (toLowerCase aiResponse) phrase) escalationPhrases"
    and novip: "\<not> (''vip'' \<in> set (ctx_tags context) \<and> ctx_lifetimeValue context > 100000)"
  shows "\<exists>actions. decideActions ex aiResponse a context cid = Inr actions \<and>
           (\<forall>x \<in> set actions. priority x \<noteq> 10) \<and>
           (\<exists>x \<in> set actions. action_type x = ''send-link'' \<and>
                                map_of (params x) ''url'' = Some (JStr promoUrl)) \<and>
           sorted_wrt (\<lambda>x y. priority x \<ge> priority y) actions"
proof -
  define allowed where "allowed = jsIncludes (JArr xs)"
  define intent' where "intent' = detectIntent aiResponse"
  define pushed where
    "pushed = linkActions allowed intent' aiResponse cid @
              documentActions allowed intent' aiResponse cid @
              quoteActions allowed intent' context cid @
              meetingActions ex allowed intent' aiResponse context cid @
              escalationActions ex allowed aiResponse context cid @
              noteActions allowed intent' aiResponse context @
              tagActions allowed aiResponse context @
              productActions ex allowed intent' aiResponse cid"
  define actions where "actions = sort_key (\<lambda>action. - priority action) pushed"
  have res: "decideActions ex aiResponse a context cid = Inr actions"
    by (simp add: decideActions_def allow canInclude_def Let_def actions_def pushed_def
        allowed_def intent'_def)
  have calm: "\<not> shouldEscalate aiResponse context"
    using noesc novip by (simp add: shouldEscalate_def Let_def)
  have ten: "priority x \<noteq> 10" if "x \<in> set actions" for x
  proof -
    from that have "x \<in> set pushed" by (simp add: actions_def)
    then show ?thesis
      unfolding pushed_def escalationActions_empty[OF calm]
      by (auto dest: priority_ten_only_escalation)
  qed
  have ok: "allowed ''send-link''"
    using allow(2) by (simp add: allowed_def jsIncludes_def)
  have "strIncludes promoUrl ''http''"
    by (simp add: promoUrl_def startsWith_def)
  then have http: "strIncludes aiResponse ''http''"
    unfolding shape strIncludes_iff by (metis append.assoc)
  have found: "promoUrl \<in> set (extractUrls aiResponse)"
    unfolding shape by (rule extractUrls_promo[OF delim])
  define link where
    "link = \<lparr>action_type = ''send-link'',
             params = [(''conversationId'', JStr cid), (''url'', JStr promoUrl),
                       (''title'', JStr (extractLinkTitle aiResponse promoUrl))],
             priority = 5\<rparr>"
  have "link \<in> set (linkActions allowed intent' aiResponse cid)"
    using ok http found by (auto simp: linkActions_def link_def)
  then have "link \<in> set actions"
    by (simp add: actions_def pushed_def)
  moreover have "action_type link = ''send-link''" "map_of (params link) ''url'' = Some (JStr promoUrl)"
    by (simp_all add: link_def)
  ultimately have lk: "\<exists>x \<in> set actions. action_type x = ''send-link'' \<and>
                                map_of (params x) ''url'' = Some (JStr promoUrl)"
    by blast
  have "sorted (map (\<lambda>action. - priority action) actions)"
    unfolding actions_def by (rule sorted_sort_key)
  then have srt: "sorted_wrt (\<lambda>x y. priority x \<ge> priority y) actions"
    by (simp add: sorted_map)
  show ?thesis using res ten lk srt by blast
qed

theorem decideActions_promo_link_witness:
  "allowedActions (exampleAgent ''a1'' []) = Some (JArr [JStr ''send-link'']) \<and>
   promoResponse = ''Visit '' @ promoUrl @ '' today'' \<and>
   isSpace (last ''Visit '') \<and> isSpace (hd '' today'') \<and>
   \<not> list_ex (\<lambda>phrase. strIncludes (toLowerCase promoResponse) phrase) escalationPhrases \<and>
   (\<exists>actions. decideActions exampleExtractors promoResponse (exampleAgent ''a1'' [])
                  exampleContext ''cv'' = Inr actions \<and>
      (\<forall>x \<in> set actions. priority x \<noteq> 10) \<and>
      (\<exists>x \<in> set actions. action_type x = ''send-link'' \<and>
                           map_of (params x) ''url'' = Some (JStr promoUrl)) \<and>
      sorted_wrt (\<lambda>x y. priority x \<ge> priority y) actions)"
proof -
  have allow: "allowedActions (exampleAgent ''a1'' []) = Some (JArr [JStr ''send-link''])"
    by (simp add: exampleAgent_def)
  have mem: "JStr ''send-link'' \<in> set [JStr ''send-link'']" by simp
  have shape: "promoResponse = ''Visit '' @ promoUrl @ '' today''"
    by (simp add: promoResponse_def)
  have l: "isSpace (last ''Visit '')" and r: "isSpace (hd '' today'')"
    by (simp_all add: isSpace_def)
  have noesc: "\<not> list_ex (\<lambda>phrase. strIncludes (toLowerCase promoResponse) phrase) escalationPhrases"
    by code_simp
  have novip: "\<not> (''vip'' \<in> set (ctx_tags exampleContext) \<and> ctx_lifetimeValue exampleContext > 100000)"
    by (simp add: exampleContext_def)
  have "\<exists>actions. decideActions exampleExtractors promoResponse (exampleAgent ''a1'' [])
                  exampleContext ''cv'' = Inr actions \<and>
      (\<forall>x \<in> set actions. priority x \<noteq> 10) \<and>
      (\<exists>x \<in> set actions. action_type x = ''send-link'' \<and>
                           map_of (params x) ''url'' = Some (JStr promoUrl)) \<and>
      sorted_wrt (\<lambda>x y. priority x \<ge> priority y) actions"
    using l r by (intro decideActions_promo_link[OF allow mem shape _ _ noesc novip]) simp_all
  then show ?thesis using allow shape l r noesc by blast
qed

text \<open>
  Claim C9 as stated fails: the URL pattern runs up to the next whitespace, so for a
  response that ends the sentence right after the URL the extracted URL carries the full
  stop, and no action has \<open>https://example.com/promo\<close> as its URL.
\<close>

theorem decideActions_trailing_stop_counterexample:
  "strIncludes dottedResponse ''https://example.com/promo'' \<and>
   allowedActions (exampleAgent ''a1'' []) = Some (JArr [JStr ''send-link'']) \<and>
   \<not> list_ex (\<lambda>phrase. strIncludes (toLowerCase dottedResponse) phrase) escalationPhrases \<and>
   decideActions exampleExtractors dottedResponse (exampleAgent ''a1'' []) exampleContext ''cv'' =
     Inr [\<lparr>action_type = ''send-link'',
           params = [(''conversationId'', JStr ''cv''),
                     (''url'', JStr ''https://example.com/promo.''),
                     (''title'', JStr ''Visit'')],
           priority = 5\<rparr>]"
  by code_simp

section \<open>Properties of the message pipeline\<close>

text \<open>
  Claim C3 at a failing deduction. The claim asks that a ledger failure after the outbound
  AI message is saved be kept as data and the generated response still be returned; the
  schema has a table for it, \<open>credit_deduction_failure\<close>, documented as the log of deductions
  that fail after the response is sent. \<open>processMessage\<close> awaits \<open>consumeCredits\<close> inside its
  single \<open>try\<close> block and rethrows: with a balance of 10 and a deduction of 150 credits
  that throws, the outbound message is in the database and the call ends in the ledger's
  error, with no response for the caller.
\<close>

theorem processMessage_rethrows_ledger_error:
  "snd (processMessage brokeEnv 1000 chatInput \<lparr>store = chatDb, ledger = 10\<rparr>)
     = Inl (Error ''Insufficient credits'') \<and>
   map (\<lambda>m. (message_id m, role m, direction m, content m))
       (conversationMessages
          (store (fst (processMessage brokeEnv 1000 chatInput \<lparr>store = chatDb, ledger = 10\<rparr>))))
     = [(''out1'', assistant, ''outbound'', fst (callAIModel ''hello''))]"
  by code_simp

end
